theory Spec2Isabelle
  imports Complex_Main "HOL-Library.AList" "HOL-Library.Log_Nat"
begin

section \<open>Values handled by the evaluation loop\<close>

text \<open>
  The embedding follows \<^verbatim>\<open>pytorch_lightning/trainer/evaluation_loop.py\<close>
  (class \<^verbatim>\<open>TrainerEvaluationLoopMixin\<close>). Every exception that the Python of that
  file raises by itself is a value of the type \<open>error\<close>; a function that may raise
  returns \<open>error + 'a\<close>, with \<open>Inl\<close> for the exception.
\<close>

datatype error = IndexError | TypeError | AttributeError

text \<open>
  Tensors. A tensor is either zero-dimensional (\<open>Scalar\<close>) or carries a batch dimension
  (\<open>Batched\<close>, the entries listed in order). An entry is the value of a floating-point
  number, which is a rational, or \<open>NaN\<close>. The file does no arithmetic on entries by
  itself: the only operation that it applies to a tensor is \<^verbatim>\<open>mean()\<close> of the tensor
  library, whose arithmetic is a collaborator (\<open>mean_of\<close> below).
\<close>

datatype scalar = Val rat | NaN

datatype tensor = Scalar scalar | Batched "scalar list"

fun entries :: "tensor \<Rightarrow> scalar list" where
  "entries (Scalar x) = [x]"
| "entries (Batched xs) = xs"

fun is_scalar :: "tensor \<Rightarrow> bool" where
  "is_scalar (Scalar x) = True"
| "is_scalar (Batched xs) = False"

text \<open>
  Modelled from the spec: the Structured-variant result container (\<^verbatim>\<open>EvalResult\<close> of
  \<^verbatim>\<open>pytorch_lightning.core.step_result\<close>, which is not part of the file): three metric
  views (progress bar, log, callback) and the two reserved slots \<^verbatim>\<open>checkpoint_on\<close> and
  \<^verbatim>\<open>early_stop_on\<close>. A slot that is \<open>None\<close> is a key that is absent from the result
  (\<^verbatim>\<open>'checkpoint_on' in result\<close> is false). Reading a view gives a mapping of its own:
  the trainer never shares a mapping with a result.
\<close>

type_synonym metrics = "(string \<times> tensor) list"

record eval_result =
  epoch_pbar_metrics :: metrics
  epoch_log_metrics :: metrics
  result_callback_metrics :: metrics
  checkpoint_on :: "tensor option"
  early_stop_on :: "tensor option"

text \<open>
  The dynamically typed values that flow through the loop: \<^verbatim>\<open>None\<close>, a tensor, a
  \<^verbatim>\<open>dict\<close>, a \<^verbatim>\<open>list\<close> and an \<^verbatim>\<open>EvalResult\<close>. A \<^verbatim>\<open>dict\<close> is an association
  list in insertion order.
\<close>

datatype pyval =
    VNone
  | VTensor tensor
  | VDict "(string \<times> pyval) list"
  | VList "pyval list"
  | VResult eval_result

type_synonym dict = "(string \<times> pyval) list"

definition tensor_dict :: "metrics \<Rightarrow> dict" where
  "tensor_dict m = map (\<lambda>(k, t). (k, VTensor t)) m"

text \<open>\<^verbatim>\<open>d.update(other)\<close>: the entries of \<open>other\<close> are stored into \<open>d\<close> in order; a key
  that \<open>d\<close> has keeps its place and takes the new value, a new key goes last.\<close>

definition dict_update :: "dict \<Rightarrow> dict \<Rightarrow> dict" where
  "dict_update d other = fold (\<lambda>(k, v). AList.update k v) other d"

definition keys :: "dict \<Rightarrow> string set" where
  "keys d = fst ` set d"

text \<open>A batch limit: \<^verbatim>\<open>Union[int, List[int]]\<close>.\<close>

datatype batch_limit = MInt int | MList "int list"

text \<open>\<^verbatim>\<open>sum(max_batches)\<close>: an \<^verbatim>\<open>int\<close> is not iterable.\<close>

fun py_sum :: "batch_limit \<Rightarrow> error + int" where
  "py_sum (MInt n) = Inl TypeError"
| "py_sum (MList ms) = Inr (sum_list ms)"

section \<open>The trainer and its collaborators\<close>

text \<open>
  What the code does beyond computing values is recorded in the trainer: every hook and
  sink it calls appends an event to \<open>trace\<close>, every warning goes to \<open>warnings\<close>. A data
  source is the finite list of its batches; \<open>None\<close> is the null batch.
\<close>

datatype 'b event =
    OnPrePerformanceCheck
  | OnPostPerformanceCheck
  | OnTestStart
  | OnValidationStart
  | OnTestEnd
  | OnValidationEnd
  | OnEvaluationEpochStart
  | OnEvaluationEpochEnd
  | OnEvaluationBatchStart 'b nat nat
  | EvaluationStep bool 'b nat nat
  | EvaluationStepEnd pyval
  | OnEvaluationBatchEnd 'b nat nat
  | EvaluationBatchEndCleanup pyval nat nat
  | StepLogMetrics pyval nat
  | PredictionsToDisk
  | ModelTrain
  | SetGradEnabled bool
  | AddProgressBarMetrics dict
  | LogMetrics dict
  | PrintRule
  | PrintHeader nat
  | PPrint dict

datatype warning = DeprecationWarning string

record 'b trainer =
  callback_metrics :: dict
  test_dataloaders :: "'b option list list option"
  val_dataloaders :: "'b option list list option"
  num_test_batches :: batch_limit
  num_val_batches :: batch_limit
  reload_dataloaders_every_epoch :: bool
  is_global_zero :: bool
  verbose_test :: bool
  loop_testing :: bool
  loop_max_batches :: "int list"
  loop_outputs :: "pyval list list"
  warnings :: "warning list"
  trace :: "'b event list"

text \<open>
  The collaborators that the file calls and does not define are parameters:
  the per-batch computation of the model (\<open>evaluation_step\<close>, \<open>evaluation_step_end\<close>), its
  epoch-end hooks with the capability query \<open>is_overridden\<close>, the class-level operations
  of the result container, the output post-processing of legacy results, the flattening of
  nested mappings, the dataloader adapter of the execution backend and the provisioning
  of data sources.

  A hook is a function of its arguments. A hook that raises aborts the run with its own
  exception; such hooks are outside the model.

  \<open>gather h outs\<close> stands for \<^verbatim>\<open>outs[0].__class__.gather(outs)\<close> on a non-empty list and
  \<open>reduce_on_epoch_end h outs\<close> for \<^verbatim>\<open>outs[0].__class__.reduce_on_epoch_end(outs)\<close>,
  with the error of a first element whose class has no such operation.
  \<open>process_output h r\<close> gives the progress-bar, log and callback views of a legacy result.

  \<open>mean_of h xs\<close> is the entry of \<^verbatim>\<open>t.mean()\<close> for a tensor \<^verbatim>\<open>t\<close> with the entries
  \<open>xs\<close>: the arithmetic of the tensor library, which depends on the element type of the
  tensor and rounds.
\<close>

record 'b hooks =
  evaluation_step :: "bool \<Rightarrow> 'b \<Rightarrow> nat \<Rightarrow> nat \<Rightarrow> pyval"
  evaluation_step_end :: "pyval \<Rightarrow> pyval"
  is_using_eval_results :: "pyval list list \<Rightarrow> bool"
  is_overridden :: "string \<Rightarrow> bool"
  test_end :: "pyval \<Rightarrow> pyval"
  test_epoch_end :: "pyval \<Rightarrow> pyval"
  validation_end :: "pyval \<Rightarrow> pyval"
  validation_epoch_end :: "pyval \<Rightarrow> pyval"
  gather :: "pyval list \<Rightarrow> error + eval_result"
  reduce_on_epoch_end :: "pyval list \<Rightarrow> error + eval_result"
  result_len :: "eval_result \<Rightarrow> nat"
  mean_of :: "scalar list \<Rightarrow> scalar"
  process_output :: "pyval \<Rightarrow> error + dict \<times> dict \<times> dict"
  flatten_dict :: "pyval \<Rightarrow> error + dict"
  process_dataloader :: "'b option list \<Rightarrow> 'b option list"
  reset_test_dataloader :: "'b trainer \<Rightarrow> 'b trainer"
  reset_val_dataloader :: "'b trainer \<Rightarrow> 'b trainer"

definition emit :: "'b event list \<Rightarrow> 'b trainer \<Rightarrow> 'b trainer" where
  "emit es s = s\<lparr>trace := trace s @ es\<rparr>"

text \<open>A \<^verbatim>\<open>for\<close> loop over a list whose body updates the trainer and may raise.\<close>

fun for_each :: "('a \<Rightarrow> 's \<Rightarrow> error + 's) \<Rightarrow> 'a list \<Rightarrow> 's \<Rightarrow> error + 's" where
  "for_each body [] s = Inr s"
| "for_each body (x # xs) s =
     (case body x s of Inl e \<Rightarrow> Inl e | Inr s' \<Rightarrow> for_each body xs s')"

section \<open>The batch iteration engine (\<^verbatim>\<open>_evaluate\<close>, the loops)\<close>

text \<open>The hooks of one batch, in the order of the source, and the output of the step.\<close>

definition batch_output :: "'b hooks \<Rightarrow> bool \<Rightarrow> 'b \<Rightarrow> nat \<Rightarrow> nat \<Rightarrow> pyval" where
  "batch_output h test_mode batch batch_idx dataloader_idx =
     evaluation_step_end h (evaluation_step h test_mode batch batch_idx dataloader_idx)"

definition batch_events :: "'b hooks \<Rightarrow> bool \<Rightarrow> 'b \<Rightarrow> nat \<Rightarrow> nat \<Rightarrow> 'b event list" where
  "batch_events h test_mode batch batch_idx dataloader_idx =
     [OnEvaluationBatchStart batch batch_idx dataloader_idx,
      EvaluationStep test_mode batch batch_idx dataloader_idx,
      EvaluationStepEnd (evaluation_step h test_mode batch batch_idx dataloader_idx),
      OnEvaluationBatchEnd batch batch_idx dataloader_idx,
      EvaluationBatchEndCleanup (batch_output h test_mode batch batch_idx dataloader_idx)
        batch_idx dataloader_idx,
      StepLogMetrics (batch_output h test_mode batch batch_idx dataloader_idx) batch_idx]"

text \<open>
  \<^verbatim>\<open>for batch_idx, batch in enumerate(dataloader)\<close>: a null batch continues with the
  next index, a batch at or beyond the limit breaks out of the loop, any other batch runs
  the hooks and appends its output unless that is \<^verbatim>\<open>None\<close>.
\<close>

fun evaluation_batches ::
  "'b hooks \<Rightarrow> bool \<Rightarrow> nat \<Rightarrow> int \<Rightarrow> nat \<Rightarrow> 'b option list \<Rightarrow> pyval list \<Rightarrow> 'b trainer
    \<Rightarrow> pyval list \<times> 'b trainer" where
  "evaluation_batches h test_mode dataloader_idx dl_max_batches batch_idx [] dl_outputs s =
     (dl_outputs, s)"
| "evaluation_batches h test_mode dataloader_idx dl_max_batches batch_idx (None # rest) dl_outputs s =
     evaluation_batches h test_mode dataloader_idx dl_max_batches (Suc batch_idx) rest dl_outputs s"
| "evaluation_batches h test_mode dataloader_idx dl_max_batches batch_idx (Some batch # rest) dl_outputs s =
     (if dl_max_batches \<le> int batch_idx then (dl_outputs, s)
      else
        let output = batch_output h test_mode batch batch_idx dataloader_idx;
            s' = emit (batch_events h test_mode batch batch_idx dataloader_idx) s
        in evaluation_batches h test_mode dataloader_idx dl_max_batches (Suc batch_idx) rest
             (if output \<noteq> VNone then dl_outputs @ [output] else dl_outputs) s')"

text \<open>
  \<^verbatim>\<open>for dataloader_idx, dataloader in enumerate(dataloaders)\<close>: the limit of the source is
  \<^verbatim>\<open>self.evaluation_loop.max_batches[dataloader_idx]\<close>, which raises when the list of
  limits is too short.
\<close>

fun evaluation_dataloaders ::
  "'b hooks \<Rightarrow> bool \<Rightarrow> nat \<Rightarrow> 'b option list list \<Rightarrow> 'b trainer \<Rightarrow> error + 'b trainer" where
  "evaluation_dataloaders h test_mode dataloader_idx [] s = Inr s"
| "evaluation_dataloaders h test_mode dataloader_idx (dataloader # rest) s =
     (if dataloader_idx < length (loop_max_batches s) then
        let dl_max_batches = loop_max_batches s ! dataloader_idx;
            (dl_outputs, s') =
              evaluation_batches h test_mode dataloader_idx dl_max_batches 0
                (process_dataloader h dataloader) [] s
        in evaluation_dataloaders h test_mode (Suc dataloader_idx) rest
             (s'\<lparr>loop_outputs := loop_outputs s' @ [dl_outputs]\<rparr>)
      else Inl IndexError)"

text \<open>
  Modelled from the spec: \<^verbatim>\<open>EvaluationLoop.setup\<close> (of
  \<^verbatim>\<open>pytorch_lightning.trainer.evaluate_loop\<close>, not part of the file). The limit is a
  single integer broadcast to all sources, or one integer per source; the epoch output
  is created empty at the start of the epoch.
\<close>

definition limits_per_source :: "batch_limit \<Rightarrow> 'b option list list \<Rightarrow> int list" where
  "limits_per_source max_batches dataloaders =
     (case max_batches of
        MInt n \<Rightarrow> replicate (length dataloaders) n
      | MList ms \<Rightarrow> ms)"

definition loop_setup :: "batch_limit \<Rightarrow> 'b option list list \<Rightarrow> 'b trainer \<Rightarrow> 'b trainer" where
  "loop_setup max_batches dataloaders s =
     s\<lparr>loop_max_batches := limits_per_source max_batches dataloaders,
       loop_outputs := []\<rparr>"

section \<open>The epoch reducer\<close>

text \<open>\<^verbatim>\<open>t.mean()\<close>, without a dimension: all the entries of the tensor are reduced, so
  the result is zero-dimensional.\<close>

definition mean :: "'b hooks \<Rightarrow> tensor \<Rightarrow> tensor" where
  "mean h t = Scalar (mean_of h (entries t))"

text \<open>The two reserved slots, when present, are replaced by their \<^verbatim>\<open>mean()\<close>.\<close>

definition mean_reserved :: "'b hooks \<Rightarrow> eval_result \<Rightarrow> eval_result" where
  "mean_reserved h result =
     result\<lparr>checkpoint_on := map_option (mean h) (checkpoint_on result),
            early_stop_on := map_option (mean h) (early_stop_on result)\<rparr>"

text \<open>The loop of \<^verbatim>\<open>__gather_epoch_end_eval_results\<close>; \<^verbatim>\<open>epoch_output[0]\<close> raises on
  an empty list.\<close>

fun gather_each :: "'b hooks \<Rightarrow> pyval list list \<Rightarrow> error + eval_result list" where
  "gather_each h [] = Inr []"
| "gather_each h (epoch_output # rest) =
     (case epoch_output of
        [] \<Rightarrow> Inl IndexError
      | first # others \<Rightarrow>
          (case gather h epoch_output of
             Inl e \<Rightarrow> Inl e
           | Inr result \<Rightarrow>
               (case gather_each h rest of
                  Inl e \<Rightarrow> Inl e
                | Inr eval_results \<Rightarrow> Inr (mean_reserved h result # eval_results))))"

definition gather_epoch_end_eval_results :: "'b hooks \<Rightarrow> pyval list list \<Rightarrow> error + pyval" where
  "gather_epoch_end_eval_results h outs =
     (case gather_each h outs of
        Inl e \<Rightarrow> Inl e
      | Inr eval_results \<Rightarrow>
          Inr (if length eval_results = 1 then VResult (eval_results ! 0)
               else VList (map VResult eval_results)))"

text \<open>\<^verbatim>\<open>__auto_reduce_result_objs\<close>; \<^verbatim>\<open>dl_output[0]\<close> raises on an empty list.\<close>

fun auto_reduce_result_objs :: "'b hooks \<Rightarrow> pyval list list \<Rightarrow> error + eval_result list" where
  "auto_reduce_result_objs h [] = Inr []"
| "auto_reduce_result_objs h (dl_output # rest) =
     (case dl_output of
        [] \<Rightarrow> Inl IndexError
      | first # others \<Rightarrow>
          (case reduce_on_epoch_end h dl_output of
             Inl e \<Rightarrow> Inl e
           | Inr result \<Rightarrow>
               (case auto_reduce_result_objs h rest of
                  Inl e \<Rightarrow> Inl e
                | Inr eval_results \<Rightarrow> Inr (mean_reserved h result # eval_results))))"

definition test_end_warning :: warning where
  "test_end_warning = DeprecationWarning
     ''Method `test_end` was deprecated in v0.7 and will be removed in v1.0. Use `test_epoch_end` instead.''"

definition validation_end_warning :: warning where
  "validation_end_warning = DeprecationWarning
     ''Method `validation_end` was deprecated in v0.7 and will be removed in v1.0. Use `validation_epoch_end` instead.''"

text \<open>\<^verbatim>\<open>eval_results = outputs\<close>, and \<^verbatim>\<open>outputs[0]\<close> with a single dataloader.\<close>

definition single_unwrap :: "pyval list list \<Rightarrow> 'b option list list \<Rightarrow> error + pyval" where
  "single_unwrap outs dataloaders =
     (if length dataloaders = 1 then
        (case outs of [] \<Rightarrow> Inl IndexError | dl_output # rest \<Rightarrow> Inr (VList dl_output))
      else Inr (VList (map VList outs)))"

text \<open>The input of a user hook: gathered when Structured-variant results are in use.\<close>

definition hook_input :: "'b hooks \<Rightarrow> pyval list list \<Rightarrow> bool \<Rightarrow> pyval \<Rightarrow> error + pyval" where
  "hook_input h outs using_eval_result eval_results =
     (if using_eval_result then gather_epoch_end_eval_results h outs else Inr eval_results)"

text \<open>\<^verbatim>\<open>if not isinstance(eval_results, list): eval_results = [eval_results]\<close>.\<close>

fun as_list :: "pyval \<Rightarrow> pyval" where
  "as_list (VList xs) = VList xs"
| "as_list v = VList [v]"

text \<open>
  The branch on the mode and the hooks of \<^verbatim>\<open>__run_eval_epoch_end\<close>: the value, the flag
  \<^verbatim>\<open>user_reduced\<close> and the trainer with the warning, if any.
\<close>

definition user_reduce ::
  "'b hooks \<Rightarrow> 'b trainer \<Rightarrow> bool \<Rightarrow> pyval list list \<Rightarrow> bool \<Rightarrow> pyval
    \<Rightarrow> error + pyval \<times> bool \<times> 'b trainer" where
  "user_reduce h s test_mode outs using_eval_result eval_results =
     (if test_mode then
        if is_overridden h ''test_end'' then
          (case hook_input h outs using_eval_result eval_results of
             Inl e \<Rightarrow> Inl e
           | Inr v \<Rightarrow> Inr (test_end h v, True, s\<lparr>warnings := warnings s @ [test_end_warning]\<rparr>))
        else if is_overridden h ''test_epoch_end'' then
          (case hook_input h outs using_eval_result eval_results of
             Inl e \<Rightarrow> Inl e
           | Inr v \<Rightarrow> Inr (test_epoch_end h v, True, s))
        else Inr (eval_results, False, s)
      else
        if is_overridden h ''validation_end'' then
          (case hook_input h outs using_eval_result eval_results of
             Inl e \<Rightarrow> Inl e
           | Inr v \<Rightarrow>
               Inr (validation_end h v, True, s\<lparr>warnings := warnings s @ [validation_end_warning]\<rparr>))
        else if is_overridden h ''validation_epoch_end'' then
          (case hook_input h outs using_eval_result eval_results of
             Inl e \<Rightarrow> Inl e
           | Inr v \<Rightarrow> Inr (validation_epoch_end h v, True, s))
        else Inr (eval_results, False, s))"

definition run_eval_epoch_end ::
  "'b hooks \<Rightarrow> 'b trainer \<Rightarrow> bool \<Rightarrow> pyval list list \<Rightarrow> 'b option list list \<Rightarrow> bool
    \<Rightarrow> error + pyval \<times> 'b trainer" where
  "run_eval_epoch_end h s test_mode outs dataloaders using_eval_result =
     (case single_unwrap outs dataloaders of
        Inl e \<Rightarrow> Inl e
      | Inr eval_results \<Rightarrow>
          (case user_reduce h s test_mode outs using_eval_result eval_results of
             Inl e \<Rightarrow> Inl e
           | Inr (eval_results', user_reduced, s') \<Rightarrow>
               if using_eval_result \<and> \<not> user_reduced then
                 (case auto_reduce_result_objs h outs of
                    Inl e \<Rightarrow> Inl e
                  | Inr rs \<Rightarrow> Inr (as_list (VList (map VResult rs)), s'))
               else Inr (as_list eval_results', s')))"

section \<open>The metrics publisher\<close>

text \<open>\<^verbatim>\<open>self.callback_metrics = eval_result.callback_metrics\<close>: only a result container
  has the attribute.\<close>

definition assign_callback_metrics :: "pyval \<Rightarrow> 'b trainer \<Rightarrow> error + 'b trainer" where
  "assign_callback_metrics eval_result s =
     (case eval_result of
        VResult r \<Rightarrow> Inr (s\<lparr>callback_metrics := tensor_dict (result_callback_metrics r)\<rparr>)
      | _ \<Rightarrow> Inl AttributeError)"

text \<open>The legacy branch: a tensor is bound to \<^verbatim>\<open>val_loss\<close>, anything else is
  flattened, and the flat mapping is merged into the store.\<close>

definition merge_callback_metrics :: "'b hooks \<Rightarrow> pyval \<Rightarrow> 'b trainer \<Rightarrow> error + 'b trainer" where
  "merge_callback_metrics h eval_result s =
     (case (case eval_result of
              VTensor t \<Rightarrow> Inr [(''val_loss'', eval_result)]
            | _ \<Rightarrow> flatten_dict h eval_result) of
        Inl e \<Rightarrow> Inl e
      | Inr flat \<Rightarrow> Inr (s\<lparr>callback_metrics := dict_update (callback_metrics s) flat\<rparr>))"

definition update_callback_metrics ::
  "'b hooks \<Rightarrow> 'b trainer \<Rightarrow> pyval \<Rightarrow> bool \<Rightarrow> error + 'b trainer" where
  "update_callback_metrics h s eval_results using_eval_result =
     (if using_eval_result then
        (case eval_results of
           VList rs \<Rightarrow> for_each assign_callback_metrics rs s
         | _ \<Rightarrow> assign_callback_metrics eval_results s)
      else
        (case eval_results of
           VList rs \<Rightarrow> for_each (merge_callback_metrics h) rs s
         | _ \<Rightarrow> merge_callback_metrics h eval_results s))"

text \<open>The three views of one epoch result in \<^verbatim>\<open>__log_evaluation_epoch_metrics\<close>.\<close>

definition result_views :: "'b hooks \<Rightarrow> bool \<Rightarrow> pyval \<Rightarrow> error + dict \<times> dict \<times> dict" where
  "result_views h test_mode result =
     (case result of
        VResult r \<Rightarrow>
          Inr (tensor_dict (epoch_pbar_metrics r), tensor_dict (epoch_log_metrics r),
               if test_mode then [] else tensor_dict (result_callback_metrics r))
      | _ \<Rightarrow> process_output h result)"

text \<open>\<^verbatim>\<open>{**prog_bar_metrics, **log_metrics, **callback_metrics}\<close>.\<close>

definition merged_views :: "dict \<times> dict \<times> dict \<Rightarrow> dict" where
  "merged_views v =
     (case v of (prog_bar_metrics, log_metrics, cb_metrics) \<Rightarrow>
        dict_update (dict_update (dict_update [] prog_bar_metrics) log_metrics) cb_metrics)"

fun log_results ::
  "'b hooks \<Rightarrow> bool \<Rightarrow> pyval list \<Rightarrow> dict list \<Rightarrow> 'b trainer \<Rightarrow> error + dict list \<times> 'b trainer" where
  "log_results h test_mode [] eval_loop_results s = Inr (eval_loop_results, s)"
| "log_results h test_mode (result # rest) eval_loop_results s =
     (case result_views h test_mode result of
        Inl e \<Rightarrow> Inl e
      | Inr (prog_bar_metrics, log_metrics, cb_metrics) \<Rightarrow>
          let dataloader_result_metrics = merged_views (prog_bar_metrics, log_metrics, cb_metrics);
              s1 = emit [AddProgressBarMetrics prog_bar_metrics, LogMetrics log_metrics] s;
              s2 = s1\<lparr>callback_metrics := dict_update (callback_metrics s1) cb_metrics\<rparr>
          in log_results h test_mode rest
               (if dataloader_result_metrics \<noteq> [] then eval_loop_results @ [dataloader_result_metrics]
                else eval_loop_results) s2)"

text \<open>\<^verbatim>\<open>len(x)\<close> of a value; a zero-dimensional tensor and \<^verbatim>\<open>None\<close> have no length.\<close>

fun py_len :: "'b hooks \<Rightarrow> pyval \<Rightarrow> error + nat" where
  "py_len h VNone = Inl TypeError"
| "py_len h (VTensor (Scalar x)) = Inl TypeError"
| "py_len h (VTensor (Batched xs)) = Inr (length xs)"
| "py_len h (VDict d) = Inr (length d)"
| "py_len h (VList xs) = Inr (length xs)"
| "py_len h (VResult r) = Inr (result_len h r)"

text \<open>The report of a test run: a rule, then a header, the mapping and a rule per entry.\<close>

fun report_events :: "nat \<Rightarrow> dict list \<Rightarrow> 'b event list" where
  "report_events result_idx [] = []"
| "report_events result_idx (results # rest) =
     [PrintHeader result_idx, PPrint results, PrintRule] @ report_events (Suc result_idx) rest"

definition log_evaluation_epoch_metrics ::
  "'b hooks \<Rightarrow> 'b trainer \<Rightarrow> pyval \<Rightarrow> bool \<Rightarrow> error + dict list \<times> 'b trainer" where
  "log_evaluation_epoch_metrics h s eval_results test_mode =
     (case (if eval_results = VNone then Inr ([], s)
            else
              (case py_len h eval_results of
                 Inl e \<Rightarrow> Inl e
               | Inr n \<Rightarrow>
                   if 0 < n then
                     log_results h test_mode
                       (case eval_results of VList rs \<Rightarrow> rs | _ \<Rightarrow> [eval_results]) [] s
                   else Inr ([], s))) of
        Inl e \<Rightarrow> Inl e
      | Inr (eval_loop_results, s') \<Rightarrow>
          Inr (eval_loop_results,
               if test_mode \<and> is_global_zero s' \<and> verbose_test s'
               then emit (PrintRule # report_events 0 eval_loop_results) s'
               else s'))"

section \<open>The engine as a whole and the run controller\<close>

text \<open>The start of \<^verbatim>\<open>_evaluate\<close>, lines 249 to 255.\<close>

definition begin_epoch ::
  "'b trainer \<Rightarrow> 'b option list list \<Rightarrow> batch_limit \<Rightarrow> bool \<Rightarrow> 'b trainer" where
  "begin_epoch s dataloaders max_batches test_mode =
     (let s1 = s\<lparr>loop_testing := test_mode\<rparr>;
          s2 = loop_setup max_batches dataloaders s1
      in emit [OnEvaluationEpochStart] s2)"

definition evaluate ::
  "'b hooks \<Rightarrow> 'b trainer \<Rightarrow> 'b option list list \<Rightarrow> batch_limit \<Rightarrow> bool
    \<Rightarrow> error + pyval \<times> 'b trainer" where
  "evaluate h s dataloaders max_batches test_mode =
     (let s3 = begin_epoch s dataloaders max_batches test_mode
      in case evaluation_dataloaders h test_mode 0 dataloaders s3 of
           Inl e \<Rightarrow> Inl e
         | Inr s4 \<Rightarrow>
             let using_eval_result = is_using_eval_results h (loop_outputs s4)
             in case run_eval_epoch_end h s4 test_mode (loop_outputs s4) dataloaders
                       using_eval_result of
                  Inl e \<Rightarrow> Inl e
                | Inr (eval_results, s5) \<Rightarrow>
                    (case update_callback_metrics h s5 eval_results using_eval_result of
                       Inl e \<Rightarrow> Inl e
                     | Inr s6 \<Rightarrow>
                         Inr (eval_results,
                              emit [PredictionsToDisk, ModelTrain, SetGradEnabled True,
                                    OnEvaluationEpochEnd] s6)))"

text \<open>The selection of the data sources and their limits, lines 436 to 451.\<close>

definition select_dataloaders :: "'b hooks \<Rightarrow> 'b trainer \<Rightarrow> bool \<Rightarrow> 'b trainer" where
  "select_dataloaders h s test_mode =
     (let s1 = emit [OnPrePerformanceCheck] s
      in if test_mode then reset_test_dataloader h s1
         else if val_dataloaders s1 = None then reset_val_dataloader h s1
         else s1)"

definition selected_dataloaders :: "'b trainer \<Rightarrow> bool \<Rightarrow> 'b option list list option" where
  "selected_dataloaders s test_mode = (if test_mode then test_dataloaders s else val_dataloaders s)"

definition selected_max_batches :: "'b trainer \<Rightarrow> bool \<Rightarrow> batch_limit" where
  "selected_max_batches s test_mode = (if test_mode then num_test_batches s else num_val_batches s)"

definition start_event :: "bool \<Rightarrow> 'b event" where
  "start_event test_mode = (if test_mode then OnTestStart else OnValidationStart)"

definition end_event :: "bool \<Rightarrow> 'b event" where
  "end_event test_mode = (if test_mode then OnTestEnd else OnValidationEnd)"

text \<open>The end of the run, lines 473 to 489.\<close>

definition finish_run :: "'b hooks \<Rightarrow> 'b trainer \<Rightarrow> bool \<Rightarrow> 'b trainer" where
  "finish_run h s test_mode =
     (let s1 = emit [OnPostPerformanceCheck] s;
          s2 = (if reload_dataloaders_every_epoch s1
                then (if test_mode then reset_test_dataloader h s1 else reset_val_dataloader h s1)
                else s1)
      in emit [end_event test_mode] s2)"

definition run_evaluation ::
  "'b hooks \<Rightarrow> 'b trainer \<Rightarrow> bool \<Rightarrow> error + (dict list \<times> pyval) \<times> 'b trainer" where
  "run_evaluation h s test_mode =
     (let s1 = select_dataloaders h s test_mode
      in case selected_dataloaders s1 test_mode of
           None \<Rightarrow> Inr (([], VList []), s1)
         | Some dataloaders \<Rightarrow>
             let max_batches = selected_max_batches s1 test_mode;
                 s2 = emit [start_event test_mode] s1
             in case py_sum max_batches of
                  Inl e \<Rightarrow> Inl e
                | Inr limit_sum \<Rightarrow>
                    if limit_sum = 0 then Inr (([], VList []), s2)
                    else
                      (case evaluate h s2 dataloaders max_batches test_mode of
                         Inl e \<Rightarrow> Inl e
                       | Inr (eval_results, s3) \<Rightarrow>
                           (case log_evaluation_epoch_metrics h s3 eval_results test_mode of
                              Inl e \<Rightarrow> Inl e
                            | Inr (eval_loop_results, s4) \<Rightarrow>
                                Inr ((eval_loop_results, eval_results),
                                     finish_run h s4 test_mode))))"

section \<open>What the engine processes\<close>

text \<open>
  The batches of a source that the loop runs the hooks for, with their positions, when the
  enumeration starts at \<open>i\<close>: the batches that are not null and whose position is below
  the limit \<open>m\<close>. That the loop with its \<^verbatim>\<open>continue\<close> and \<^verbatim>\<open>break\<close> processes
  exactly these is lemma \<open>evaluation_batches_live\<close>.
\<close>

definition live_batches :: "int \<Rightarrow> nat \<Rightarrow> 'b option list \<Rightarrow> (nat \<times> 'b) list" where
  "live_batches m i bs =
     List.map_filter
       (\<lambda>(j, ob). case ob of None \<Rightarrow> None | Some b \<Rightarrow> if int j < m then Some (j, b) else None)
       (List.enumerate i bs)"

definition source_outputs :: "'b hooks \<Rightarrow> bool \<Rightarrow> nat \<Rightarrow> int \<Rightarrow> 'b option list \<Rightarrow> pyval list" where
  "source_outputs h test_mode d m bs =
     filter (\<lambda>output. output \<noteq> VNone)
       (map (\<lambda>(j, b). batch_output h test_mode b j d) (live_batches m 0 bs))"

definition source_events :: "'b hooks \<Rightarrow> bool \<Rightarrow> nat \<Rightarrow> int \<Rightarrow> 'b option list \<Rightarrow> 'b event list" where
  "source_events h test_mode d m bs =
     concat (map (\<lambda>(j, b). batch_events h test_mode b j d) (live_batches m 0 bs))"

text \<open>The epoch output: for every source, in order, the outputs of its processed batches.\<close>

definition epoch_outputs ::
  "'b hooks \<Rightarrow> bool \<Rightarrow> 'b option list list \<Rightarrow> batch_limit \<Rightarrow> pyval list list" where
  "epoch_outputs h test_mode dataloaders max_batches =
     map (\<lambda>(j, dataloader).
            source_outputs h test_mode j (limits_per_source max_batches dataloaders ! j)
              (process_dataloader h dataloader))
       (List.enumerate 0 dataloaders)"

section \<open>The operations of the result container\<close>

text \<open>
  Modelled from the spec: the class-level operations \<^verbatim>\<open>gather\<close> and
  \<^verbatim>\<open>reduce_on_epoch_end\<close> of the Structured-variant result container
  (\<^verbatim>\<open>pytorch_lightning.core.step_result\<close>, not part of the file). Both take the outputs
  of one source and return a single result of the same shape. \<^verbatim>\<open>gather\<close> concatenates
  the values of every metric and of every reserved slot along the batch dimension;
  \<^verbatim>\<open>reduce_on_epoch_end\<close> does the same and then reduces the metrics of the three views
  to their mean (the local reduction; \<open>m\<close> is the arithmetic of the mean, as \<open>mean_of\<close>).
  Both leave the reserved slots to the caller, which averages them afterwards. An output
  that is no result container has none of the attributes they read.
\<close>

definition stack :: "tensor list \<Rightarrow> tensor" where
  "stack ts = Batched (concat (map entries ts))"

fun as_results :: "pyval list \<Rightarrow> error + eval_result list" where
  "as_results [] = Inr []"
| "as_results (VResult r # rest) =
     (case as_results rest of Inl e \<Rightarrow> Inl e | Inr rs \<Rightarrow> Inr (r # rs))"
| "as_results (v # rest) = Inl AttributeError"

definition stack_slot :: "(eval_result \<Rightarrow> tensor option) \<Rightarrow> eval_result list \<Rightarrow> tensor option" where
  "stack_slot slot rs = (case List.map_filter slot rs of [] \<Rightarrow> None | t # ts \<Rightarrow> Some (stack (t # ts)))"

definition stack_view :: "(eval_result \<Rightarrow> metrics) \<Rightarrow> eval_result list \<Rightarrow> metrics" where
  "stack_view view rs =
     map (\<lambda>k. (k, stack (List.map_filter (\<lambda>r. map_of (view r) k) rs)))
       (remdups (concat (map (\<lambda>r. map fst (view r)) rs)))"

definition result_gather :: "pyval list \<Rightarrow> error + eval_result" where
  "result_gather outs =
     (case as_results outs of
        Inl e \<Rightarrow> Inl e
      | Inr rs \<Rightarrow>
          Inr \<lparr>epoch_pbar_metrics = stack_view epoch_pbar_metrics rs,
               epoch_log_metrics = stack_view epoch_log_metrics rs,
               result_callback_metrics = stack_view result_callback_metrics rs,
               checkpoint_on = stack_slot checkpoint_on rs,
               early_stop_on = stack_slot early_stop_on rs\<rparr>)"

definition mean_view :: "(scalar list \<Rightarrow> scalar) \<Rightarrow> metrics \<Rightarrow> metrics" where
  "mean_view m view = map (\<lambda>(k, t). (k, Scalar (m (entries t)))) view"

definition result_reduce_on_epoch_end ::
  "(scalar list \<Rightarrow> scalar) \<Rightarrow> pyval list \<Rightarrow> error + eval_result" where
  "result_reduce_on_epoch_end m outs =
     (case result_gather outs of
        Inl e \<Rightarrow> Inl e
      | Inr r \<Rightarrow>
          Inr (r\<lparr>epoch_pbar_metrics := mean_view m (epoch_pbar_metrics r),
                 epoch_log_metrics := mean_view m (epoch_log_metrics r),
                 result_callback_metrics := mean_view m (result_callback_metrics r)\<rparr>))"

section \<open>A sample model and trainer\<close>

text \<open>
  Concrete collaborators, to run the loop on concrete inputs. A batch is a rational
  number. The legacy model returns the batch index as a scalar from every step and
  overrides no epoch-end hook; its post-processing gives a scalar no views and takes the
  entries of a mapping as callback metrics; its mappings are flat, so flattening returns
  them as they are. The structured model returns a result container from every step,
  which logs the batch, as a single-precision scalar, under the given name and monitors it
  in \<^verbatim>\<open>checkpoint_on\<close>.
\<close>

text \<open>
  The sample arithmetic of \<^verbatim>\<open>mean()\<close> is that of single-precision tensors, the default
  element type of the tensor library. \<open>float32 x\<close> is the single-precision number nearest
  to \<open>x\<close>: \<open>x\<close> is rounded to a significand of 24 bits, a tie going to the even
  significand. For a positive \<open>x\<close>, \<open>exponent x\<close> is the \<open>e\<close> with
  \<open>pow2 e \<le> x < pow2 (e + 1)\<close>, where \<open>pow2 e\<close> is the power of two with the exponent
  \<open>e\<close>; the spacing of the single-precision numbers at \<open>x\<close> is \<open>pow2 (e - 23)\<close>. The mean
  adds the entries from left to right and divides the sum by their number, rounding after
  every operation; \<open>NaN\<close> propagates, and the mean of no entries is \<open>NaN\<close>. The range of
  the exponent is not bounded: overflow to infinity and subnormal numbers are outside
  the sample.
\<close>

definition exponent :: "rat \<Rightarrow> int" where
  "exponent x =
     (if 1 \<le> x then bitlen \<lfloor>x\<rfloor> - 1 else - bitlen (\<lceil>1 / x\<rceil> - 1))"

definition pow2 :: "int \<Rightarrow> rat" where
  "pow2 e = (if 0 \<le> e then 2 ^ nat e else 1 / 2 ^ nat (- e))"

definition round_half_even :: "rat \<Rightarrow> int" where
  "round_half_even q =
     (let f = \<lfloor>q\<rfloor>; r = q - of_int f
      in if r < 1 / 2 then f
         else if 1 / 2 < r then f + 1
         else if even f then f else f + 1)"

definition float32 :: "rat \<Rightarrow> rat" where
  "float32 x =
     (if x = 0 then 0
      else
        let ulp = pow2 (exponent \<bar>x\<bar> - 23)
        in sgn x * of_int (round_half_even (\<bar>x\<bar> / ulp)) * ulp)"

fun float32_add :: "scalar \<Rightarrow> scalar \<Rightarrow> scalar" where
  "float32_add (Val x) (Val y) = Val (float32 (x + y))"
| "float32_add x y = NaN"

fun float32_div :: "scalar \<Rightarrow> nat \<Rightarrow> scalar" where
  "float32_div (Val x) n = (if n = 0 then NaN else Val (float32 (x / of_nat n)))"
| "float32_div NaN n = NaN"

definition float32_mean :: "scalar list \<Rightarrow> scalar" where
  "float32_mean xs = float32_div (foldl float32_add (Val 0) xs) (length xs)"

definition sample_process_output :: "pyval \<Rightarrow> error + dict \<times> dict \<times> dict" where
  "sample_process_output v =
     (case v of
        VTensor t \<Rightarrow> Inr ([], [], [])
      | VDict d \<Rightarrow> Inr ([], [], d)
      | _ \<Rightarrow> Inl AttributeError)"

definition sample_flatten_dict :: "pyval \<Rightarrow> error + dict" where
  "sample_flatten_dict v = (case v of VDict d \<Rightarrow> Inr d | _ \<Rightarrow> Inl AttributeError)"

definition sample_is_using_eval_results :: "pyval list list \<Rightarrow> bool" where
  "sample_is_using_eval_results outs =
     (case outs of (VResult r # rest) # others \<Rightarrow> True | _ \<Rightarrow> False)"

definition legacy_hooks :: "rat hooks" where
  "legacy_hooks =
     \<lparr>evaluation_step = (\<lambda>test_mode batch batch_idx dataloader_idx.
          VTensor (Scalar (Val (of_nat batch_idx)))),
      evaluation_step_end = (\<lambda>output. output),
      is_using_eval_results = sample_is_using_eval_results,
      is_overridden = (\<lambda>name. False),
      test_end = (\<lambda>v. v),
      test_epoch_end = (\<lambda>v. v),
      validation_end = (\<lambda>v. v),
      validation_epoch_end = (\<lambda>v. v),
      gather = result_gather,
      reduce_on_epoch_end = result_reduce_on_epoch_end float32_mean,
      result_len = (\<lambda>r. 1),
      mean_of = float32_mean,
      process_output = sample_process_output,
      flatten_dict = sample_flatten_dict,
      process_dataloader = (\<lambda>dataloader. dataloader),
      reset_test_dataloader = (\<lambda>s. s),
      reset_val_dataloader = (\<lambda>s. s)\<rparr>"

definition step_result :: "string \<Rightarrow> rat \<Rightarrow> eval_result" where
  "step_result name x =
     \<lparr>epoch_pbar_metrics = [],
      epoch_log_metrics = [(name, Scalar (Val (float32 x)))],
      result_callback_metrics = [(name, Scalar (Val (float32 x)))],
      checkpoint_on = Some (Scalar (Val (float32 x))),
      early_stop_on = None\<rparr>"

definition structured_hooks :: "string \<Rightarrow> rat hooks" where
  "structured_hooks name =
     legacy_hooks\<lparr>evaluation_step := (\<lambda>test_mode batch batch_idx dataloader_idx.
       VResult (step_result name batch))\<rparr>"

definition idle_trainer :: "rat trainer" where
  "idle_trainer =
     \<lparr>callback_metrics = [],
      test_dataloaders = None,
      val_dataloaders = None,
      num_test_batches = MList [],
      num_val_batches = MList [],
      reload_dataloaders_every_epoch = False,
      is_global_zero = True,
      verbose_test = False,
      loop_testing = False,
      loop_max_batches = [],
      loop_outputs = [],
      warnings = [],
      trace = []\<rparr>"

text \<open>
  Further sample models: one whose steps return a one-entry mapping, one that overrides
  \<^verbatim>\<open>validation_epoch_end\<close> and returns a bare mapping from it, one that overrides every
  hook, and results that also monitor \<^verbatim>\<open>early_stop_on\<close>. The sample trainers have one
  data source of three batches, for validation and for testing.
\<close>

definition dict_hooks :: "string \<Rightarrow> rat hooks" where
  "dict_hooks name = legacy_hooks\<lparr>evaluation_step := (\<lambda>test_mode batch batch_idx dataloader_idx.
       VDict [(name, VTensor (Scalar (Val batch)))])\<rparr>"

definition epoch_end_hooks :: "rat hooks" where
  "epoch_end_hooks = legacy_hooks\<lparr>is_overridden := (\<lambda>name. name = ''validation_epoch_end''),
       validation_epoch_end := (\<lambda>v. VDict [(''val_loss'', VTensor (Scalar (Val 1)))])\<rparr>"

definition both_hooks :: "rat hooks" where
  "both_hooks = legacy_hooks\<lparr>is_overridden := (\<lambda>name. True),
       validation_end := (\<lambda>v. VDict [(''val_loss'', VTensor (Scalar (Val 2)))]),
       validation_epoch_end := (\<lambda>v. VDict [(''val_loss'', VTensor (Scalar (Val 1)))])\<rparr>"

definition monitored :: "rat \<Rightarrow> rat \<Rightarrow> pyval" where
  "monitored x y =
     VResult ((step_result ''val_acc'' x)\<lparr>early_stop_on := Some (Scalar (Val (float32 y)))\<rparr>)"

definition val_trainer :: "rat trainer" where
  "val_trainer = idle_trainer\<lparr>val_dataloaders := Some [[Some (1/2), Some (3/10), Some (7/10)]],
                             num_val_batches := MList [3]\<rparr>"

definition test_trainer :: "rat trainer" where
  "test_trainer = idle_trainer\<lparr>test_dataloaders := Some [[Some (1/2), Some (3/10), Some (7/10)]],
                              num_test_batches := MList [3]\<rparr>"

text \<open>Two evaluation runs in sequence on the same trainer.\<close>

definition run_twice ::
  "'b hooks \<Rightarrow> 'b hooks \<Rightarrow> 'b trainer \<Rightarrow> bool \<Rightarrow> error + (dict list \<times> pyval) \<times> 'b trainer" where
  "run_twice h1 h2 s test_mode =
     (case run_evaluation h1 s test_mode of
        Inl e \<Rightarrow> Inl e
      | Inr (r, s1) \<Rightarrow> run_evaluation h2 s1 test_mode)"

section \<open>Notions used to state the properties\<close>

text \<open>
  The hooks of the two modes under one name: the deprecated whole-epoch hook
  (\<^verbatim>\<open>test_end\<close>, \<^verbatim>\<open>validation_end\<close>), the current one (\<^verbatim>\<open>test_epoch_end\<close>,
  \<^verbatim>\<open>validation_epoch_end\<close>) and the warning of the deprecated one.
\<close>

definition legacy_name :: "bool \<Rightarrow> string" where
  "legacy_name test_mode = (if test_mode then ''test_end'' else ''validation_end'')"

definition epoch_end_name :: "bool \<Rightarrow> string" where
  "epoch_end_name test_mode = (if test_mode then ''test_epoch_end'' else ''validation_epoch_end'')"

definition legacy_hook :: "'b hooks \<Rightarrow> bool \<Rightarrow> pyval \<Rightarrow> pyval" where
  "legacy_hook h test_mode = (if test_mode then test_end h else validation_end h)"

definition epoch_end_hook :: "'b hooks \<Rightarrow> bool \<Rightarrow> pyval \<Rightarrow> pyval" where
  "epoch_end_hook h test_mode = (if test_mode then test_epoch_end h else validation_epoch_end h)"

definition deprecation :: "bool \<Rightarrow> warning" where
  "deprecation test_mode = (if test_mode then test_end_warning else validation_end_warning)"

text \<open>Both reserved slots of a result, when present, are zero-dimensional.\<close>

definition reserved_scalar :: "eval_result \<Rightarrow> bool" where
  "reserved_scalar r =
     ((case checkpoint_on r of None \<Rightarrow> True | Some t \<Rightarrow> is_scalar t)
      \<and> (case early_stop_on r of None \<Rightarrow> True | Some t \<Rightarrow> is_scalar t))"

text \<open>The result of the source \<open>i\<close> in a value that is either the bare result of the only
  source or the list of the results of the sources.\<close>

fun nth_result :: "pyval \<Rightarrow> nat \<Rightarrow> eval_result option" where
  "nth_result (VResult r) i = (if i = 0 then Some r else None)"
| "nth_result (VList vs) i =
     (if i < length vs then (case vs ! i of VResult r \<Rightarrow> Some r | _ \<Rightarrow> None) else None)"
| "nth_result v i = None"

section \<open>Properties of the batch iteration engine\<close>


lemma live_batches_Nil: "live_batches m i [] = []"
  by (simp add: live_batches_def List.map_filter_simps)

lemma live_batches_None: "live_batches m i (None # bs) = live_batches m (Suc i) bs"
  by (simp add: live_batches_def List.map_filter_simps)

lemma live_batches_Some:
  "live_batches m i (Some b # bs) =
     (if int i < m then (i, b) # live_batches m (Suc i) bs else live_batches m (Suc i) bs)"
  by (simp add: live_batches_def List.map_filter_simps)

lemma live_batches_beyond: "m \<le> int i \<Longrightarrow> live_batches m i bs = []"
proof (induction bs arbitrary: i)
  case Nil
  show ?case by (simp add: live_batches_Nil)
next
  case (Cons ob bs)
  from Cons.prems have "m \<le> int (Suc i)" by simp
  then have "live_batches m (Suc i) bs = []" by (rule Cons.IH)
  with Cons.prems show ?case
    by (cases ob) (simp_all add: live_batches_None live_batches_Some)
qed

lemma emit_emit: "emit es (emit es' s) = emit (es' @ es) s"
  by (simp add: emit_def)

lemma emit_Nil: "emit [] s = s"
  by (simp add: emit_def)

lemma evaluation_batches_live:
  "evaluation_batches h test_mode d m i bs outs s =
     (outs @ filter (\<lambda>output. output \<noteq> VNone)
               (map (\<lambda>(j, b). batch_output h test_mode b j d) (live_batches m i bs)),
      emit (concat (map (\<lambda>(j, b). batch_events h test_mode b j d) (live_batches m i bs))) s)"
proof (induction bs arbitrary: i outs s)
  case Nil
  show ?case by (simp add: live_batches_Nil emit_Nil)
next
  case (Cons ob bs)
  show ?case
  proof (cases ob)
    case None
    then show ?thesis by (simp add: live_batches_None Cons.IH)
  next
    case (Some b)
    show ?thesis
    proof (cases "m \<le> int i")
      case True
      then have "live_batches m i (Some b # bs) = []" by (rule live_batches_beyond)
      with True Some show ?thesis by (simp add: emit_Nil)
    next
      case False
      with Some show ?thesis
        by (simp add: live_batches_Some Cons.IH emit_emit Let_def)
    qed
  qed
qed

lemma length_live_batches: "int (length (live_batches m i bs)) \<le> max 0 (m - int i)"
proof (induction bs arbitrary: i)
  case Nil
  show ?case by (simp add: live_batches_Nil)
next
  case (Cons ob bs)
  have IH: "int (length (live_batches m (Suc i) bs)) \<le> max 0 (m - int (Suc i))"
    by (rule Cons.IH)
  show ?case
  proof (cases ob)
    case None
    with IH show ?thesis by (simp add: live_batches_None)
  next
    case (Some b)
    show ?thesis
    proof (cases "int i < m")
      case True
      with IH Some show ?thesis by (simp add: live_batches_Some)
    next
      case False
      then have "live_batches m i (ob # bs) = []" by (simp add: live_batches_beyond)
      then show ?thesis by simp
    qed
  qed
qed


lemma evaluation_batches_source:
  "evaluation_batches h test_mode d m 0 bs [] s =
     (source_outputs h test_mode d m bs, emit (source_events h test_mode d m bs) s)"
  by (simp add: evaluation_batches_live source_outputs_def source_events_def)

lemma length_source_outputs: "int (length (source_outputs h test_mode d m bs)) \<le> max 0 m"
proof -
  have "length (source_outputs h test_mode d m bs) \<le> length (live_batches m 0 bs)"
    unfolding source_outputs_def
    by (rule le_trans [OF length_filter_le]) simp
  moreover have "int (length (live_batches m 0 bs)) \<le> max 0 m"
    using length_live_batches [of m 0 bs] by simp
  ultimately show ?thesis by linarith
qed

lemma evaluation_dataloaders_run:
  "d + length dls \<le> length (loop_max_batches s) \<Longrightarrow>
   evaluation_dataloaders h test_mode d dls s =
     Inr (s\<lparr>loop_outputs := loop_outputs s @
               map (\<lambda>(j, dl). source_outputs h test_mode j (loop_max_batches s ! j)
                                (process_dataloader h dl)) (List.enumerate d dls),
            trace := trace s @
               concat (map (\<lambda>(j, dl). source_events h test_mode j (loop_max_batches s ! j)
                                (process_dataloader h dl)) (List.enumerate d dls))\<rparr>)"
proof (induction dls arbitrary: d s)
  case Nil
  show ?case by simp
next
  case (Cons dl dls)
  from Cons.prems have d: "d < length (loop_max_batches s)" by simp
  let ?s' = "(emit (source_events h test_mode d (loop_max_batches s ! d) (process_dataloader h dl)) s)
               \<lparr>loop_outputs := loop_outputs s @
                  [source_outputs h test_mode d (loop_max_batches s ! d) (process_dataloader h dl)]\<rparr>"
  have lm: "loop_max_batches ?s' = loop_max_batches s" by (simp add: emit_def)
  from Cons.prems have "Suc d + length dls \<le> length (loop_max_batches ?s')" by (simp add: emit_def)
  note IH = Cons.IH [OF this]
  have step: "evaluation_dataloaders h test_mode d (dl # dls) s =
                evaluation_dataloaders h test_mode (Suc d) dls ?s'"
    using d by (simp add: evaluation_batches_source emit_def Let_def)
  show ?case
    unfolding step IH by (simp add: emit_def)
qed


lemma live_batches_append:
  "live_batches m i (xs @ ys) = live_batches m i xs @ live_batches m (i + length xs) ys"
proof (induction xs arbitrary: i)
  case Nil
  show ?case by (simp add: live_batches_Nil)
next
  case (Cons ob xs)
  show ?case
    by (cases ob) (simp_all add: live_batches_None live_batches_Some Cons.IH)
qed

lemma in_live_batches:
  "(j, b) \<in> set (live_batches m i bs) \<longleftrightarrow>
     i \<le> j \<and> j < i + length bs \<and> bs ! (j - i) = Some b \<and> int j < m"
proof (induction bs arbitrary: i j b)
  case Nil
  show ?case by (simp add: live_batches_Nil)
next
  case (Cons ob bs)
  have nth: "\<And>k. i < k \<Longrightarrow> (ob # bs) ! (k - i) = bs ! (k - Suc i)"
    by (simp add: Suc_diff_Suc nth_Cons')
  show ?case
  proof (cases ob)
    case None
    show ?thesis
      unfolding None live_batches_None Cons.IH using nth [unfolded None]
      by (cases "j = i") auto
  next
    case (Some a)
    show ?thesis
      unfolding Some live_batches_Some using nth [unfolded Some]
      by (cases "j = i") (auto simp: Cons.IH)
  qed
qed

lemma evaluation_batches_trace:
  "trace (snd (evaluation_batches h test_mode d m i bs outs s)) =
     trace s @ concat (map (\<lambda>(j, b). batch_events h test_mode b j d) (live_batches m i bs))"
  by (simp add: evaluation_batches_live emit_def)

text \<open>
  Claim C8. A null batch at position \<open>i\<close> of a source is skipped: the loop over the source
  is the loop over the batches before \<open>i\<close> followed by the loop over the batches after \<open>i\<close>,
  which starts at index \<open>i + 1\<close> with the outputs and the trainer exactly as the first part
  left them, so the null batch adds no output and no hook call and the iteration goes on.
  Every per-batch hook call of the source belongs to a batch that is not null at another
  position, and every later batch that is not null and below the limit has all its hooks
  called.
\<close>

theorem null_batch_is_skipped:
  assumes i: "i < length bs" and null: "bs ! i = None"
  shows "evaluation_batches h test_mode d m 0 bs outs s =
           (case evaluation_batches h test_mode d m 0 (take i bs) outs s of
              (outs1, s1) \<Rightarrow> evaluation_batches h test_mode d m (Suc i) (drop (Suc i) bs) outs1 s1)
         \<and> (\<exists>es. trace (snd (evaluation_batches h test_mode d m 0 bs outs s)) = trace s @ es
               \<and> (\<forall>e\<in>set es. \<exists>j b. j \<noteq> i \<and> j < length bs \<and> bs ! j = Some b
                                  \<and> e \<in> set (batch_events h test_mode b j d))
               \<and> (\<forall>j b. i < j \<and> j < length bs \<and> bs ! j = Some b \<and> int j < m
                     \<longrightarrow> set (batch_events h test_mode b j d) \<subseteq> set es))"
proof (intro conjI)
  from i null have bs: "bs = take i bs @ None # drop (Suc i) bs"
    by (metis id_take_nth_drop)
  have len: "length (take i bs) = i" using i by simp
  have "live_batches m 0 bs = live_batches m 0 (take i bs @ None # drop (Suc i) bs)"
    using bs by simp
  also have "\<dots> = live_batches m 0 (take i bs) @ live_batches m (Suc i) (drop (Suc i) bs)"
    using i by (simp add: live_batches_append live_batches_None min_absorb2 del: append_take_drop_id)
  finally have split: "live_batches m 0 bs =
      live_batches m 0 (take i bs) @ live_batches m (Suc i) (drop (Suc i) bs)" .
  show "evaluation_batches h test_mode d m 0 bs outs s =
           (case evaluation_batches h test_mode d m 0 (take i bs) outs s of
              (outs1, s1) \<Rightarrow> evaluation_batches h test_mode d m (Suc i) (drop (Suc i) bs) outs1 s1)"
    by (simp add: evaluation_batches_live split emit_emit)
  let ?es = "concat (map (\<lambda>(j, b). batch_events h test_mode b j d) (live_batches m 0 bs))"
  have tr: "trace (snd (evaluation_batches h test_mode d m 0 bs outs s)) = trace s @ ?es"
    by (rule evaluation_batches_trace)
  have only: "\<forall>e\<in>set ?es. \<exists>j b. j \<noteq> i \<and> j < length bs \<and> bs ! j = Some b
                                  \<and> e \<in> set (batch_events h test_mode b j d)"
  proof
    fix e assume "e \<in> set ?es"
    then obtain j b where jb: "(j, b) \<in> set (live_batches m 0 bs)"
      and e: "e \<in> set (batch_events h test_mode b j d)" by auto
    from jb have "j < length bs" "bs ! j = Some b" by (simp_all add: in_live_batches)
    moreover from this null have "j \<noteq> i" by auto
    ultimately show "\<exists>j b. j \<noteq> i \<and> j < length bs \<and> bs ! j = Some b
                                  \<and> e \<in> set (batch_events h test_mode b j d)"
      using e by blast
  qed
  have later: "\<forall>j b. i < j \<and> j < length bs \<and> bs ! j = Some b \<and> int j < m
                     \<longrightarrow> set (batch_events h test_mode b j d) \<subseteq> set ?es"
  proof (intro allI impI)
    fix j b assume "i < j \<and> j < length bs \<and> bs ! j = Some b \<and> int j < m"
    then have "(j, b) \<in> set (live_batches m 0 bs)" by (simp add: in_live_batches)
    then show "set (batch_events h test_mode b j d) \<subseteq> set ?es" by auto
  qed
  from tr only later
  show "\<exists>es. trace (snd (evaluation_batches h test_mode d m 0 bs outs s)) = trace s @ es
               \<and> (\<forall>e\<in>set es. \<exists>j b. j \<noteq> i \<and> j < length bs \<and> bs ! j = Some b
                                  \<and> e \<in> set (batch_events h test_mode b j d))
               \<and> (\<forall>j b. i < j \<and> j < length bs \<and> bs ! j = Some b \<and> int j < m
                     \<longrightarrow> set (batch_events h test_mode b j d) \<subseteq> set es)"
    by blast
qed

theorem null_batch_is_skipped_witness:
  "evaluation_batches legacy_hooks False 0 3 0 [Some 1, None, Some 2] [] idle_trainer =
     (case evaluation_batches legacy_hooks False 0 3 0 (take 1 [Some 1, None, Some 2]) [] idle_trainer of
        (outs1, s1) \<Rightarrow>
          evaluation_batches legacy_hooks False 0 3 (Suc 1) (drop (Suc 1) [Some 1, None, Some 2]) outs1 s1)
   \<and> (\<exists>es. trace (snd (evaluation_batches legacy_hooks False 0 3 0 [Some 1, None, Some 2] [] idle_trainer))
             = trace idle_trainer @ es
         \<and> (\<forall>e\<in>set es. \<exists>j b. j \<noteq> 1 \<and> j < length [Some (1::rat), None, Some 2]
                 \<and> [Some 1, None, Some 2] ! j = Some b
                 \<and> e \<in> set (batch_events legacy_hooks False b j 0))
         \<and> (\<forall>j b. 1 < j \<and> j < length [Some (1::rat), None, Some 2]
                 \<and> [Some 1, None, Some 2] ! j = Some b \<and> int j < 3
               \<longrightarrow> set (batch_events legacy_hooks False b j 0) \<subseteq> set es))"
proof -
  have i: "1 < length [Some (1::rat), None, Some 2]" by simp
  have null: "[Some (1::rat), None, Some 2] ! 1 = None" by simp
  show ?thesis by (rule null_batch_is_skipped [OF i null])
qed

text \<open>
  Claim C5. For a non-empty list of data sources and a vector \<open>M\<close> of limits, one per
  source and none negative, the engine returns, records one output list per source, at
  most \<open>M ! i\<close> outputs for source \<open>i\<close>, and none for a source whose limit is \<open>0\<close>.
\<close>

theorem batch_limits_respected:
  assumes ne: "dataloaders \<noteq> []"
    and len: "length M = length dataloaders"
    and nonneg: "\<forall>m\<in>set M. 0 \<le> m"
  shows "\<exists>s'. evaluation_dataloaders h test_mode 0 dataloaders
                 (begin_epoch s dataloaders (MList M) test_mode) = Inr s'
           \<and> length (loop_outputs s') = length dataloaders
           \<and> (\<forall>i<length dataloaders.
                 int (length (loop_outputs s' ! i)) \<le> M ! i
                 \<and> (M ! i = 0 \<longrightarrow> loop_outputs s' ! i = []))"
proof -
  let ?s0 = "begin_epoch s dataloaders (MList M) test_mode"
  have lm: "loop_max_batches ?s0 = M" and lo: "loop_outputs ?s0 = []"
    by (simp_all add: begin_epoch_def loop_setup_def limits_per_source_def emit_def)
  let ?outs = "map (\<lambda>(j, dl). source_outputs h test_mode j (M ! j) (process_dataloader h dl))
                 (List.enumerate 0 dataloaders)"
  from len have "0 + length dataloaders \<le> length (loop_max_batches ?s0)" by (simp add: lm)
  from evaluation_dataloaders_run [OF this, of h test_mode]
  obtain s' where run: "evaluation_dataloaders h test_mode 0 dataloaders ?s0 = Inr s'"
    and outs: "loop_outputs s' = ?outs"
    by (simp add: lm lo)
  have "\<forall>i<length dataloaders.
          int (length (loop_outputs s' ! i)) \<le> M ! i
          \<and> (M ! i = 0 \<longrightarrow> loop_outputs s' ! i = [])"
  proof (intro allI impI)
    fix i assume i: "i < length dataloaders"
    then have nth: "loop_outputs s' ! i =
        source_outputs h test_mode i (M ! i) (process_dataloader h (dataloaders ! i))"
      by (simp add: outs nth_enumerate_eq)
    from i len nonneg have "0 \<le> M ! i" by simp
    with length_source_outputs [of h test_mode i "M ! i" "process_dataloader h (dataloaders ! i)"]
    have "int (length (loop_outputs s' ! i)) \<le> M ! i" by (simp add: nth)
    then show "int (length (loop_outputs s' ! i)) \<le> M ! i
          \<and> (M ! i = 0 \<longrightarrow> loop_outputs s' ! i = [])" by auto
  qed
  moreover have "length (loop_outputs s') = length dataloaders" by (simp add: outs)
  ultimately show ?thesis using run by blast
qed

theorem batch_limits_respected_witness:
  "\<exists>s'. evaluation_dataloaders legacy_hooks False 0
            [[Some 1, None, Some 2, Some 3, Some 4], [Some 5]]
            (begin_epoch idle_trainer [[Some 1, None, Some 2, Some 3, Some 4], [Some 5]]
               (MList [3, 0]) False) = Inr s'
      \<and> length (loop_outputs s') = length [[Some (1::rat), None, Some 2, Some 3, Some 4], [Some 5]]
      \<and> (\<forall>i<length [[Some (1::rat), None, Some 2, Some 3, Some 4], [Some 5]].
            int (length (loop_outputs s' ! i)) \<le> [3, 0] ! i
            \<and> ([3, 0] ! i = (0::int) \<longrightarrow> loop_outputs s' ! i = []))"
proof -
  have ne: "[[Some (1::rat), None, Some 2, Some 3, Some 4], [Some 5]] \<noteq> []" by simp
  have len: "length [3, 0::int] = length [[Some (1::rat), None, Some 2, Some 3, Some 4], [Some 5]]"
    by simp
  have nonneg: "\<forall>m\<in>set [3, 0::int]. 0 \<le> m" by simp
  show ?thesis by (rule batch_limits_respected [OF ne len nonneg])
qed

text \<open>The scenario of two sources with the limits 3 and 0: the null batch and the batches
  beyond the limit leave no output, and the second source records nothing.\<close>

lemma scenario_outputs:
  "map_sum id loop_outputs
     (evaluation_dataloaders legacy_hooks False 0
        [[Some 1, None, Some 2, Some 3, Some 4], [Some 5]]
        (begin_epoch idle_trainer [[Some 1, None, Some 2, Some 3, Some 4], [Some 5]]
               (MList [3, 0]) False))
   = Inr [[VTensor (Scalar (Val 0)), VTensor (Scalar (Val 2))], []]"
  by (simp add: begin_epoch_def loop_setup_def limits_per_source_def emit_def idle_trainer_def legacy_hooks_def
      batch_output_def batch_events_def Let_def)

section \<open>Properties of the epoch reducer\<close>

lemma single_unwrap_list: "single_unwrap outs dataloaders = Inr raw \<Longrightarrow> \<exists>xs. raw = VList xs"
  by (auto simp: single_unwrap_def split: if_splits list.splits)

lemma as_list_is_list: "\<exists>xs. as_list v = VList xs"
  by (cases v) simp_all

lemma deprecation_names_replacement:
  "\<exists>pre post. deprecation test_mode = DeprecationWarning (pre @ epoch_end_name test_mode @ post)"
proof (cases test_mode)
  case True
  have "test_end_warning = DeprecationWarning
     (''Method `test_end` was deprecated in v0.7 and will be removed in v1.0. Use `''
        @ ''test_epoch_end'' @ ''` instead.'')"
    by (simp add: test_end_warning_def)
  with True show ?thesis
    unfolding deprecation_def epoch_end_name_def by (simp only: if_True) blast
next
  case False
  have "validation_end_warning = DeprecationWarning
     (''Method `validation_end` was deprecated in v0.7 and will be removed in v1.0. Use `''
        @ ''validation_epoch_end'' @ ''` instead.'')"
    by (simp add: validation_end_warning_def)
  with False show ?thesis
    unfolding deprecation_def epoch_end_name_def by (simp only: if_False) blast
qed

lemma run_eval_epoch_end_cases:
  assumes raw: "single_unwrap outs dataloaders = Inr raw"
  shows "is_overridden h (legacy_name test_mode) \<Longrightarrow>
           run_eval_epoch_end h s test_mode outs dataloaders using_eval_result =
             map_sum id (\<lambda>v. (as_list (legacy_hook h test_mode v),
                               s\<lparr>warnings := warnings s @ [deprecation test_mode]\<rparr>))
               (hook_input h outs using_eval_result raw)"
    and "\<not> is_overridden h (legacy_name test_mode) \<Longrightarrow> is_overridden h (epoch_end_name test_mode) \<Longrightarrow>
           run_eval_epoch_end h s test_mode outs dataloaders using_eval_result =
             map_sum id (\<lambda>v. (as_list (epoch_end_hook h test_mode v), s))
               (hook_input h outs using_eval_result raw)"
    and "\<not> is_overridden h (legacy_name test_mode) \<Longrightarrow> \<not> is_overridden h (epoch_end_name test_mode) \<Longrightarrow>
           using_eval_result \<Longrightarrow>
           run_eval_epoch_end h s test_mode outs dataloaders using_eval_result =
             map_sum id (\<lambda>rs. (VList (map VResult rs), s)) (auto_reduce_result_objs h outs)"
    and "\<not> is_overridden h (legacy_name test_mode) \<Longrightarrow> \<not> is_overridden h (epoch_end_name test_mode) \<Longrightarrow>
           \<not> using_eval_result \<Longrightarrow>
           run_eval_epoch_end h s test_mode outs dataloaders using_eval_result = Inr (raw, s)"
proof -
  from raw obtain xs where xs: "raw = VList xs" by (auto dest: single_unwrap_list)
  show "is_overridden h (legacy_name test_mode) \<Longrightarrow>
           run_eval_epoch_end h s test_mode outs dataloaders using_eval_result =
             map_sum id (\<lambda>v. (as_list (legacy_hook h test_mode v),
                               s\<lparr>warnings := warnings s @ [deprecation test_mode]\<rparr>))
               (hook_input h outs using_eval_result raw)"
    using raw
    by (cases test_mode; cases "hook_input h outs using_eval_result raw")
      (simp_all add: run_eval_epoch_end_def user_reduce_def legacy_name_def legacy_hook_def
        deprecation_def)
  show "\<not> is_overridden h (legacy_name test_mode) \<Longrightarrow> is_overridden h (epoch_end_name test_mode) \<Longrightarrow>
           run_eval_epoch_end h s test_mode outs dataloaders using_eval_result =
             map_sum id (\<lambda>v. (as_list (epoch_end_hook h test_mode v), s))
               (hook_input h outs using_eval_result raw)"
    using raw
    by (cases test_mode; cases "hook_input h outs using_eval_result raw")
      (simp_all add: run_eval_epoch_end_def user_reduce_def legacy_name_def epoch_end_name_def
        epoch_end_hook_def)
  show "\<not> is_overridden h (legacy_name test_mode) \<Longrightarrow> \<not> is_overridden h (epoch_end_name test_mode) \<Longrightarrow>
           using_eval_result \<Longrightarrow>
           run_eval_epoch_end h s test_mode outs dataloaders using_eval_result =
             map_sum id (\<lambda>rs. (VList (map VResult rs), s)) (auto_reduce_result_objs h outs)"
    using raw
    by (cases test_mode; cases "auto_reduce_result_objs h outs")
      (simp_all add: run_eval_epoch_end_def user_reduce_def legacy_name_def epoch_end_name_def)
  show "\<not> is_overridden h (legacy_name test_mode) \<Longrightarrow> \<not> is_overridden h (epoch_end_name test_mode) \<Longrightarrow>
           \<not> using_eval_result \<Longrightarrow>
           run_eval_epoch_end h s test_mode outs dataloaders using_eval_result = Inr (raw, s)"
    using raw xs
    by (cases test_mode)
      (simp_all add: run_eval_epoch_end_def user_reduce_def legacy_name_def epoch_end_name_def)
qed

lemma run_eval_epoch_end_needs_raw:
  "run_eval_epoch_end h s test_mode outs dataloaders using_eval_result = Inr (res, s') \<Longrightarrow>
   \<exists>raw. single_unwrap outs dataloaders = Inr raw"
  by (cases "single_unwrap outs dataloaders") (simp_all add: run_eval_epoch_end_def)

lemma run_eval_epoch_end_list:
  "run_eval_epoch_end h s test_mode outs dataloaders using_eval_result = Inr (res, s') \<Longrightarrow>
   \<exists>xs. res = VList xs"
  using as_list_is_list
  by (auto simp: run_eval_epoch_end_def split: sum.splits if_splits prod.splits)

subsection \<open>The sample arithmetic\<close>

text \<open>
  The single-precision mean on the sample inputs. The mean of 0.5, 0.3 and 0.7 is 0.5,
  although 0.3 and 0.7 are no single-precision numbers; the mean of 0.1, 0.2 and 0.4 is
  not the mean 7/30 of the three rationals, nor the single-precision number nearest to it.
\<close>

lemma float32_mean_sample:
  "float32_mean [Val (float32 (1/2)), Val (float32 (3/10)), Val (float32 (7/10))] = Val (1/2)"
  by code_simp

lemma float32_mean_monitored:
  "float32_mean [Val (float32 1), Val (float32 2), Val (float32 3)] = Val 2"
  by code_simp

lemma float32_mean_rounds:
  "float32_mean [Val (float32 (1/10)), Val (float32 (1/5)), Val (float32 (2/5))]
     = Val (978671/4194304)"
  by code_simp

lemma float32_values:
  "float32 (3/10) = 5033165/16777216"
  "float32 (7/10) = 11744051/16777216"
  "float32 (7/30) = 15658735/67108864"
  "float32 (- 3/10) = - 5033165/16777216"
  "float32 (1 + 1/16777216) = 1"
  "float32 (1 + 3/16777216) = 1 + 1/4194304"
  "float32 16777217 = 16777216"
  by code_simp+

lemma float32_mean_nan:
  "float32_mean [] = NaN"
  "float32_mean [Val 1, NaN, Val 2] = NaN"
  by code_simp+

text \<open>
  The rounding is a rounding to nearest: \<open>exponent\<close> is the exponent of the binade of its
  argument, a rounded number is within half a spacing of the number, and a number with a
  significand of at most 24 bits is left as it is.
\<close>

lemma pow2_pos: "0 < pow2 e"
  by (simp add: pow2_def)

lemma pow2_Suc: "pow2 (e + 1) = 2 * pow2 e"
proof (cases "0 \<le> e")
  case True
  then show ?thesis by (simp add: pow2_def nat_add_distrib)
next
  case False
  then have "nat (- e) = Suc (nat (- (e + 1)))" by simp
  then show ?thesis using False by (auto simp add: pow2_def)
qed

lemma exponent_bounds:
  assumes "0 < x"
  shows "pow2 (exponent x) \<le> x \<and> x < pow2 (exponent x + 1)"
proof (cases "1 \<le> x")
  case True
  let ?n = "\<lfloor>x\<rfloor>"
  from True have n: "0 < ?n" by simp
  from bitlen_bounds [OF n] have lo: "2 ^ nat (bitlen ?n - 1) \<le> ?n" and hi: "?n < 2 ^ nat (bitlen ?n)"
    by simp_all
  from n have b: "1 \<le> bitlen ?n" by (simp add: bitlen_alt_def)
  have e: "exponent x = bitlen ?n - 1" using True by (simp add: exponent_def)
  have "pow2 (exponent x) = of_int (2 ^ nat (bitlen ?n - 1))"
    using b by (simp add: e pow2_def)
  also have "\<dots> \<le> of_int ?n" using lo by (simp only: of_int_le_iff)
  also have "\<dots> \<le> x" by simp
  finally have 1: "pow2 (exponent x) \<le> x" .
  from hi have "?n + 1 \<le> 2 ^ nat (bitlen ?n)" by simp
  then have "(of_int (?n + 1) :: rat) \<le> of_int (2 ^ nat (bitlen ?n))" by (simp only: of_int_le_iff)
  moreover have "x < of_int (?n + 1)" by linarith
  ultimately have "x < of_int (2 ^ nat (bitlen ?n))" by linarith
  also have "\<dots> = pow2 (exponent x + 1)" using b by (simp add: e pow2_def)
  finally show ?thesis using 1 by simp
next
  case False
  let ?n = "\<lceil>1 / x\<rceil> - 1"
  from False assms have inv: "1 < 1 / x" by simp
  then have n: "0 < ?n" by linarith
  from bitlen_bounds [OF n] have lo: "2 ^ nat (bitlen ?n - 1) \<le> ?n" and hi: "?n < 2 ^ nat (bitlen ?n)"
    by simp_all
  from n have b: "1 \<le> bitlen ?n" by (simp add: bitlen_alt_def)
  have e: "exponent x = - bitlen ?n" using False by (simp add: exponent_def)
  have p: "pow2 (exponent x) = 1 / 2 ^ nat (bitlen ?n)"
    using b by (simp add: e pow2_def)
  have "1 / x \<le> of_int (?n + 1)" by simp
  also from hi have "(of_int (?n + 1) :: rat) \<le> of_int (2 ^ nat (bitlen ?n))"
    by (simp only: of_int_le_iff)
  finally have "1 / x \<le> 2 ^ nat (bitlen ?n)" by simp
  with assms have 1: "pow2 (exponent x) \<le> x"
    unfolding p by (simp add: field_simps)
  have "(of_int (2 ^ nat (bitlen ?n - 1)) :: rat) \<le> of_int ?n" using lo by (simp only: of_int_le_iff)
  also have "of_int ?n < 1 / x" by linarith
  finally have "2 ^ nat (bitlen ?n - 1) < 1 / x" by simp
  with assms have "x < 1 / 2 ^ nat (bitlen ?n - 1)" by (simp add: field_simps)
  also have "1 / 2 ^ nat (bitlen ?n - 1) = 2 * pow2 (exponent x)"
  proof -
    from b have "nat (bitlen ?n) = Suc (nat (bitlen ?n - 1))" by simp
    then show ?thesis unfolding p by simp
  qed
  finally show ?thesis using 1 by (simp add: pow2_Suc)
qed


lemma round_half_even_error: "\<bar>of_int (round_half_even q) - q\<bar> \<le> 1 / 2"
proof -
  have "of_int \<lfloor>q\<rfloor> \<le> q" "q < of_int \<lfloor>q\<rfloor> + 1" by linarith+
  then show ?thesis by (auto simp: round_half_even_def Let_def)
qed

lemma round_half_even_of_int: "round_half_even (of_int k) = k"
  by (simp add: round_half_even_def)

lemma float32_error:
  assumes "x \<noteq> 0"
  shows "\<bar>float32 x - x\<bar> \<le> pow2 (exponent \<bar>x\<bar> - 23) / 2"
proof -
  let ?u = "pow2 (exponent \<bar>x\<bar> - 23)"
  let ?r = "round_half_even (\<bar>x\<bar> / ?u)"
  have u: "0 < ?u" by (rule pow2_pos)
  have "float32 x - x = sgn x * (of_int ?r * ?u - \<bar>x\<bar>)"
  proof -
    have "x = sgn x * \<bar>x\<bar>" by (simp add: mult_sgn_abs)
    then have "sgn x * (of_int ?r * ?u - \<bar>x\<bar>) = sgn x * of_int ?r * ?u - x"
      by (simp add: algebra_simps)
    then show ?thesis using assms by (simp add: float32_def Let_def)
  qed
  then have "\<bar>float32 x - x\<bar> = \<bar>of_int ?r * ?u - \<bar>x\<bar>\<bar>"
    using assms by (simp add: abs_mult abs_sgn_eq)
  also have "of_int ?r * ?u - \<bar>x\<bar> = (of_int ?r - \<bar>x\<bar> / ?u) * ?u"
    using u by (simp add: field_simps)
  also have "\<bar>\<dots>\<bar> = \<bar>of_int ?r - \<bar>x\<bar> / ?u\<bar> * ?u"
    using u by (simp add: abs_mult)
  also have "\<dots> \<le> 1 / 2 * ?u"
    using round_half_even_error [of "\<bar>x\<bar> / ?u"] u by (intro mult_right_mono) simp_all
  finally show ?thesis by simp
qed

lemma float32_exact:
  assumes "x \<noteq> 0" and "\<bar>x\<bar> = of_int k * pow2 (exponent \<bar>x\<bar> - 23)"
  shows "float32 x = x"
proof -
  let ?u = "pow2 (exponent \<bar>x\<bar> - 23)"
  have u: "0 < ?u" by (rule pow2_pos)
  from assms(2) u have "\<bar>x\<bar> / ?u = of_int k" by (simp add: field_simps)
  then have "float32 x = sgn x * (of_int k * ?u)"
    using assms(1) by (simp add: float32_def Let_def round_half_even_of_int)
  also have "\<dots> = sgn x * \<bar>x\<bar>" using assms(2) by simp
  also have "\<dots> = x" by (simp add: mult_sgn_abs)
  finally show ?thesis .
qed

text \<open>The definitions that a run on a concrete input unfolds.\<close>

lemmas run_defs =
  run_evaluation_def select_dataloaders_def selected_dataloaders_def selected_max_batches_def
  start_event_def end_event_def finish_run_def evaluate_def begin_epoch_def loop_setup_def
  limits_per_source_def   emit_def batch_output_def batch_events_def run_eval_epoch_end_def single_unwrap_def
  user_reduce_def hook_input_def gather_epoch_end_eval_results_def update_callback_metrics_def
  assign_callback_metrics_def merge_callback_metrics_def log_evaluation_epoch_metrics_def
  result_views_def merged_views_def dict_update_def tensor_dict_def run_twice_def Let_def

lemmas sample_defs =
  legacy_hooks_def structured_hooks_def dict_hooks_def epoch_end_hooks_def both_hooks_def
  step_result_def monitored_def
  idle_trainer_def val_trainer_def test_trainer_def sample_process_output_def
  sample_flatten_dict_def sample_is_using_eval_results_def result_gather_def
  result_reduce_on_epoch_end_def stack_view_def stack_slot_def stack_def mean_view_def
  mean_reserved_def mean_def float32_mean_sample

text \<open>With exactly one data source and no output list at all, \<^verbatim>\<open>outputs[0]\<close>
  raises.\<close>

lemma run_eval_epoch_end_no_outputs:
  "length dataloaders = 1 \<Longrightarrow>
   run_eval_epoch_end h s test_mode [] dataloaders using_eval_result = Inl IndexError"
  by (simp add: run_eval_epoch_end_def single_unwrap_def)

lemma single_unwrap_raw:
  assumes "length dataloaders = 1 \<longrightarrow> outs \<noteq> []"
    and "raw = (if length dataloaders = 1 then VList (outs ! 0) else VList (map VList outs))"
  shows "single_unwrap outs dataloaders = Inr raw"
  using assms by (cases outs) (auto simp: single_unwrap_def)

text \<open>
  Claim C3, as amended. The epoch reduction tries its strategies in a fixed order and stops at
  the first that applies, in test mode and in validation mode alike. If the deprecated
  whole-epoch hook is overridden, its return value is the result (whether or not the current
  hook is overridden too) and the deprecation warning, which names the replacement hook, is
  recorded; else if the current epoch-end hook is overridden, its return value is the result
  and nothing is recorded; else, with Structured-variant results, the result is that of the
  built-in auto-reduce; else the raw outputs are returned as they are. The raw outputs
  \<open>raw\<close> are the list of the per-source output lists when the number of data sources is
  not one, and the output list of the only source (\<^verbatim>\<open>outputs[0]\<close>, a list of batch
  outputs and not a list of lists) when there is exactly one. The input of a user hook is
  \<open>raw\<close>, or the gathered results when Structured-variant results are in use; an error of
  the gathering or of the auto-reduce is the error of the reduction; and a value that is
  not a list is wrapped into a list at the end. The only source must have an output list
  for \<^verbatim>\<open>outputs[0]\<close> to exist: without one the reduction raises, whatever the hooks.
\<close>

theorem reduction_priority:
  assumes first: "length dataloaders = 1 \<longrightarrow> outs \<noteq> []"
    and raw: "raw = (if length dataloaders = 1 then VList (outs ! 0) else VList (map VList outs))"
  shows "(is_overridden h (legacy_name test_mode) \<longrightarrow>
            run_eval_epoch_end h s test_mode outs dataloaders using_eval_result =
              map_sum id (\<lambda>v. (as_list (legacy_hook h test_mode v),
                                s\<lparr>warnings := warnings s @ [deprecation test_mode]\<rparr>))
                (hook_input h outs using_eval_result raw))
       \<and> (\<not> is_overridden h (legacy_name test_mode) \<and> is_overridden h (epoch_end_name test_mode) \<longrightarrow>
            run_eval_epoch_end h s test_mode outs dataloaders using_eval_result =
              map_sum id (\<lambda>v. (as_list (epoch_end_hook h test_mode v), s))
                (hook_input h outs using_eval_result raw))
       \<and> (\<not> is_overridden h (legacy_name test_mode) \<and> \<not> is_overridden h (epoch_end_name test_mode)
            \<and> using_eval_result \<longrightarrow>
               run_eval_epoch_end h s test_mode outs dataloaders using_eval_result =
                 map_sum id (\<lambda>rs. (VList (map VResult rs), s)) (auto_reduce_result_objs h outs))
       \<and> (\<not> is_overridden h (legacy_name test_mode) \<and> \<not> is_overridden h (epoch_end_name test_mode)
            \<and> \<not> using_eval_result \<longrightarrow>
               run_eval_epoch_end h s test_mode outs dataloaders using_eval_result = Inr (raw, s))
       \<and> (\<exists>pre post. deprecation test_mode
              = DeprecationWarning (pre @ epoch_end_name test_mode @ post))"
proof -
  note unwrap = single_unwrap_raw [OF first raw]
  note cases = run_eval_epoch_end_cases [OF unwrap, where h = h and s = s
      and test_mode = test_mode and using_eval_result = using_eval_result]
  show ?thesis
  proof (intro conjI impI)
    assume "is_overridden h (legacy_name test_mode)"
    then show "run_eval_epoch_end h s test_mode outs dataloaders using_eval_result =
              map_sum id (\<lambda>v. (as_list (legacy_hook h test_mode v),
                                s\<lparr>warnings := warnings s @ [deprecation test_mode]\<rparr>))
                (hook_input h outs using_eval_result raw)"
      by (rule cases(1))
  next
    assume "\<not> is_overridden h (legacy_name test_mode) \<and> is_overridden h (epoch_end_name test_mode)"
    then show "run_eval_epoch_end h s test_mode outs dataloaders using_eval_result =
              map_sum id (\<lambda>v. (as_list (epoch_end_hook h test_mode v), s))
                (hook_input h outs using_eval_result raw)"
      using cases(2) by simp
  next
    assume "\<not> is_overridden h (legacy_name test_mode) \<and> \<not> is_overridden h (epoch_end_name test_mode)
            \<and> using_eval_result"
    then show "run_eval_epoch_end h s test_mode outs dataloaders using_eval_result =
                 map_sum id (\<lambda>rs. (VList (map VResult rs), s)) (auto_reduce_result_objs h outs)"
      using cases(3) by simp
  next
    assume "\<not> is_overridden h (legacy_name test_mode) \<and> \<not> is_overridden h (epoch_end_name test_mode)
            \<and> \<not> using_eval_result"
    then show "run_eval_epoch_end h s test_mode outs dataloaders using_eval_result = Inr (raw, s)"
      using cases(4) by simp
  next
    show "\<exists>pre post. deprecation test_mode
              = DeprecationWarning (pre @ epoch_end_name test_mode @ post)"
      by (rule deprecation_names_replacement)
  qed
qed

theorem reduction_priority_witness:
  "run_eval_epoch_end both_hooks idle_trainer False [[VTensor (Scalar (Val 0))]] [[Some 1]] False
     = Inr (VList [VDict [(''val_loss'', VTensor (Scalar (Val 2)))]],
            idle_trainer\<lparr>warnings := warnings idle_trainer @ [validation_end_warning]\<rparr>)
   \<and> run_eval_epoch_end epoch_end_hooks idle_trainer False [[VTensor (Scalar (Val 0))]] [[Some 1]] False
     = Inr (VList [VDict [(''val_loss'', VTensor (Scalar (Val 1)))]], idle_trainer)
   \<and> run_eval_epoch_end (structured_hooks ''val_acc'') idle_trainer True
        [[monitored (1/2) 1, monitored (3/10) 2]] [[Some 1, Some 2]] True
     = map_sum id (\<lambda>rs. (VList (map VResult rs), idle_trainer))
         (auto_reduce_result_objs (structured_hooks ''val_acc'') [[monitored (1/2) 1, monitored (3/10) 2]])
   \<and> run_eval_epoch_end legacy_hooks idle_trainer True
        [[VTensor (Scalar (Val 0))], []] [[Some 1], []] False
     = Inr (VList [VList [VTensor (Scalar (Val 0))], VList []], idle_trainer)
   \<and> run_eval_epoch_end legacy_hooks idle_trainer True
        [[VTensor (Scalar (Val 0)), VTensor (Scalar (Val 1))]] [[Some 1, Some 2]] False
     = Inr (VList [VTensor (Scalar (Val 0)), VTensor (Scalar (Val 1))], idle_trainer)
   \<and> run_eval_epoch_end legacy_hooks idle_trainer False [] [] False
     = Inr (VList [], idle_trainer)"
proof -
  have first1: "length [[Some (1::rat)]] = 1 \<longrightarrow> [[VTensor (Scalar (Val 0))]] \<noteq> []"
    by simp
  have raw1: "VList [VTensor (Scalar (Val 0))]
      = (if length [[Some (1::rat)]] = 1 then VList ([[VTensor (Scalar (Val 0))]] ! 0)
         else VList (map VList [[VTensor (Scalar (Val 0))]]))"
    by simp
  have first3: "length [[Some (1::rat), Some 2]] = 1
      \<longrightarrow> [[monitored (1/2) 1, monitored (3/10) 2]] \<noteq> []"
    by simp
  have raw3: "VList [monitored (1/2) 1, monitored (3/10) 2]
      = (if length [[Some (1::rat), Some 2]] = 1
         then VList ([[monitored (1/2) 1, monitored (3/10) 2]] ! 0)
         else VList (map VList [[monitored (1/2) 1, monitored (3/10) 2]]))"
    by simp
  have first4: "length [[Some (1::rat)], []] = 1 \<longrightarrow> [[VTensor (Scalar (Val 0))], []] \<noteq> []"
    by simp
  have raw4: "VList [VList [VTensor (Scalar (Val 0))], VList []]
      = (if length [[Some (1::rat)], []] = 1 then VList ([[VTensor (Scalar (Val 0))], []] ! 0)
         else VList (map VList [[VTensor (Scalar (Val 0))], []]))"
    by simp
  have first5: "length [[Some (1::rat), Some 2]] = 1
      \<longrightarrow> [[VTensor (Scalar (Val 0)), VTensor (Scalar (Val 1))]] \<noteq> []"
    by simp
  have raw5: "VList [VTensor (Scalar (Val 0)), VTensor (Scalar (Val 1))]
      = (if length [[Some (1::rat), Some 2]] = 1
         then VList ([[VTensor (Scalar (Val 0)), VTensor (Scalar (Val 1))]] ! 0)
         else VList (map VList [[VTensor (Scalar (Val 0)), VTensor (Scalar (Val 1))]]))"
    by simp
  have first6: "length ([] :: rat option list list) = 1 \<longrightarrow> ([] :: pyval list list) \<noteq> []"
    by simp
  have raw6: "VList []
      = (if length ([] :: rat option list list) = 1 then VList ([] ! 0) else VList (map VList []))"
    by simp
  have "run_eval_epoch_end both_hooks idle_trainer False [[VTensor (Scalar (Val 0))]] [[Some 1]] False
     = Inr (VList [VDict [(''val_loss'', VTensor (Scalar (Val 2)))]],
            idle_trainer\<lparr>warnings := warnings idle_trainer @ [validation_end_warning]\<rparr>)"
    using reduction_priority [OF first1 raw1, of both_hooks False idle_trainer False]
    by (simp add: both_hooks_def legacy_hooks_def legacy_name_def legacy_hook_def hook_input_def
        deprecation_def)
  moreover
  have "run_eval_epoch_end epoch_end_hooks idle_trainer False [[VTensor (Scalar (Val 0))]] [[Some 1]] False
     = Inr (VList [VDict [(''val_loss'', VTensor (Scalar (Val 1)))]], idle_trainer)"
    using reduction_priority [OF first1 raw1, of epoch_end_hooks False idle_trainer False]
    by (simp add: epoch_end_hooks_def legacy_hooks_def legacy_name_def epoch_end_name_def
        epoch_end_hook_def hook_input_def)
  moreover
  have "run_eval_epoch_end (structured_hooks ''val_acc'') idle_trainer True
        [[monitored (1/2) 1, monitored (3/10) 2]] [[Some 1, Some 2]] True
     = map_sum id (\<lambda>rs. (VList (map VResult rs), idle_trainer))
         (auto_reduce_result_objs (structured_hooks ''val_acc'') [[monitored (1/2) 1, monitored (3/10) 2]])"
    using reduction_priority [OF first3 raw3, of "structured_hooks ''val_acc''" True idle_trainer True]
    by (simp add: structured_hooks_def legacy_hooks_def legacy_name_def epoch_end_name_def)
  moreover
  have "run_eval_epoch_end legacy_hooks idle_trainer True
        [[VTensor (Scalar (Val 0))], []] [[Some 1], []] False
     = Inr (VList [VList [VTensor (Scalar (Val 0))], VList []], idle_trainer)"
    using reduction_priority [OF first4 raw4, of legacy_hooks True idle_trainer False]
    by (simp add: legacy_hooks_def legacy_name_def epoch_end_name_def)
  moreover
  have "run_eval_epoch_end legacy_hooks idle_trainer True
        [[VTensor (Scalar (Val 0)), VTensor (Scalar (Val 1))]] [[Some 1, Some 2]] False
     = Inr (VList [VTensor (Scalar (Val 0)), VTensor (Scalar (Val 1))], idle_trainer)"
    using reduction_priority [OF first5 raw5, of legacy_hooks True idle_trainer False]
    by (simp add: legacy_hooks_def legacy_name_def epoch_end_name_def)
  moreover
  have "run_eval_epoch_end legacy_hooks idle_trainer False [] [] False
     = Inr (VList [], idle_trainer)"
    using reduction_priority [OF first6 raw6, of legacy_hooks False idle_trainer False]
    by (simp add: legacy_hooks_def legacy_name_def epoch_end_name_def)
  ultimately show ?thesis by (intro conjI)
qed

text \<open>
  The claim as stated fails: with exactly one data source, no overridden hook and legacy
  outputs, what passes through is the output list of that source, a list of batch outputs;
  the list of the per-source output lists, which would hold that list as its only element,
  is not returned.
\<close>

theorem single_source_pass_through_counterexample:
  "run_eval_epoch_end legacy_hooks idle_trainer False
       [[VTensor (Scalar (Val 0)), VTensor (Scalar (Val 1))]] [[Some 1, Some 2]] False
     = Inr (VList [VTensor (Scalar (Val 0)), VTensor (Scalar (Val 1))], idle_trainer)
   \<and> run_eval_epoch_end legacy_hooks idle_trainer False
       [[VTensor (Scalar (Val 0)), VTensor (Scalar (Val 1))]] [[Some 1, Some 2]] False
     \<noteq> Inr (VList [VList [VTensor (Scalar (Val 0)), VTensor (Scalar (Val 1))]], idle_trainer)
   \<and> \<not> is_overridden legacy_hooks ''validation_end''
   \<and> \<not> is_overridden legacy_hooks ''validation_epoch_end''
   \<and> \<not> is_using_eval_results legacy_hooks [[VTensor (Scalar (Val 0)), VTensor (Scalar (Val 1))]]
   \<and> map VList [[VTensor (Scalar (Val 0)), VTensor (Scalar (Val 1))]]
     = [VList [VTensor (Scalar (Val 0)), VTensor (Scalar (Val 1))]]"
  by (simp add: run_eval_epoch_end_def single_unwrap_def user_reduce_def legacy_hooks_def
      sample_is_using_eval_results_def)

subsection \<open>Empty output lists\<close>

lemma auto_reduce_empty_fails:
  "[] \<in> set outs \<Longrightarrow> \<exists>e. auto_reduce_result_objs h outs = Inl e"
proof (induction outs)
  case Nil
  then show ?case by simp
next
  case (Cons dl_output rest)
  show ?case
  proof (cases "dl_output = []")
    case True
    then show ?thesis by simp
  next
    case False
    with Cons.prems have "[] \<in> set rest" by auto
    then obtain e where "auto_reduce_result_objs h rest = Inl e" using Cons.IH by blast
    then show ?thesis by (simp split: list.splits sum.splits)
  qed
qed

lemma gather_each_empty_fails:
  "[] \<in> set outs \<Longrightarrow> \<exists>e. gather_each h outs = Inl e"
proof (induction outs)
  case Nil
  then show ?case by simp
next
  case (Cons epoch_output rest)
  show ?case
  proof (cases "epoch_output = []")
    case True
    then show ?thesis by simp
  next
    case False
    with Cons.prems have "[] \<in> set rest" by auto
    then obtain e where "gather_each h rest = Inl e" using Cons.IH by blast
    then show ?thesis by (simp split: list.splits sum.splits)
  qed
qed

lemma auto_reduce_first_empty:
  "i < length outs \<Longrightarrow> outs ! i = [] \<Longrightarrow>
   \<forall>j<i. outs ! j \<noteq> [] \<and> (\<exists>r. reduce_on_epoch_end h (outs ! j) = Inr r) \<Longrightarrow>
   auto_reduce_result_objs h outs = Inl IndexError"
proof (induction outs arbitrary: i)
  case Nil
  then show ?case by simp
next
  case (Cons dl_output rest)
  show ?case
  proof (cases i)
    case 0
    with Cons.prems show ?thesis by simp
  next
    case (Suc k)
    with Cons.prems have k: "k < length rest" "rest ! k = []" by simp_all
    from Cons.prems(3) Suc have prev: "\<forall>j<k. rest ! j \<noteq> [] \<and> (\<exists>r. reduce_on_epoch_end h (rest ! j) = Inr r)"
      by auto
    from Cons.prems(3) Suc have hd: "dl_output \<noteq> []" "\<exists>r. reduce_on_epoch_end h dl_output = Inr r"
      by force+
    have "auto_reduce_result_objs h rest = Inl IndexError" by (rule Cons.IH [OF k prev])
    with hd show ?thesis by (auto split: list.splits)
  qed
qed

lemma gather_each_first_empty:
  "i < length outs \<Longrightarrow> outs ! i = [] \<Longrightarrow>
   \<forall>j<i. outs ! j \<noteq> [] \<and> (\<exists>r. gather h (outs ! j) = Inr r) \<Longrightarrow>
   gather_each h outs = Inl IndexError"
proof (induction outs arbitrary: i)
  case Nil
  then show ?case by simp
next
  case (Cons epoch_output rest)
  show ?case
  proof (cases i)
    case 0
    with Cons.prems show ?thesis by simp
  next
    case (Suc k)
    with Cons.prems have k: "k < length rest" "rest ! k = []" by simp_all
    from Cons.prems(3) Suc have prev: "\<forall>j<k. rest ! j \<noteq> [] \<and> (\<exists>r. gather h (rest ! j) = Inr r)"
      by auto
    from Cons.prems(3) Suc have hd: "epoch_output \<noteq> []" "\<exists>r. gather h epoch_output = Inr r"
      by force+
    have "gather_each h rest = Inl IndexError" by (rule Cons.IH [OF k prev])
    with hd show ?thesis by (auto split: list.splits)
  qed
qed

lemma run_eval_epoch_end_empty_fails:
  assumes "[] \<in> set outs"
  shows "\<exists>e. run_eval_epoch_end h s test_mode outs dataloaders True = Inl e"
proof -
  from assms obtain e1 where a: "auto_reduce_result_objs h outs = Inl e1"
    using auto_reduce_empty_fails by blast
  from assms obtain e2 where "gather_each h outs = Inl e2"
    using gather_each_empty_fails by blast
  then have g: "\<And>raw. hook_input h outs True raw = Inl e2"
    by (simp add: hook_input_def gather_epoch_end_eval_results_def)
  show ?thesis
    by (cases "single_unwrap outs dataloaders")
      (simp_all add: run_eval_epoch_end_def user_reduce_def a g)
qed

text \<open>
  Claim C10. With Structured-variant results in use, an empty output list of any source makes
  the reduction fail: the auto-reduce, the gather preprocessing and so the whole epoch
  reduction return an error, never a result. The error is the index error of reading the
  first element when the sources before the empty one are not empty and their outputs
  reduce (gather) without an error of their own.
\<close>

theorem empty_output_list_raises:
  assumes i: "i < length outs" and empty: "outs ! i = []"
  shows "(\<exists>e. auto_reduce_result_objs h outs = Inl e)
       \<and> (\<exists>e. gather_epoch_end_eval_results h outs = Inl e)
       \<and> (\<exists>e. run_eval_epoch_end h s test_mode outs dataloaders True = Inl e)
       \<and> ((\<forall>j<i. outs ! j \<noteq> [] \<and> (\<exists>r. reduce_on_epoch_end h (outs ! j) = Inr r))
            \<longrightarrow> auto_reduce_result_objs h outs = Inl IndexError)
       \<and> ((\<forall>j<i. outs ! j \<noteq> [] \<and> (\<exists>r. gather h (outs ! j) = Inr r))
            \<longrightarrow> gather_epoch_end_eval_results h outs = Inl IndexError)"
proof -
  from i empty have mem: "[] \<in> set outs" by (metis nth_mem)
  have "\<exists>e. gather_epoch_end_eval_results h outs = Inl e"
    using gather_each_empty_fails [OF mem, of h]
    by (auto simp: gather_epoch_end_eval_results_def)
  moreover have "(\<forall>j<i. outs ! j \<noteq> [] \<and> (\<exists>r. gather h (outs ! j) = Inr r))
            \<longrightarrow> gather_epoch_end_eval_results h outs = Inl IndexError"
    using gather_each_first_empty [OF i empty, of h]
    by (auto simp: gather_epoch_end_eval_results_def)
  moreover have "(\<forall>j<i. outs ! j \<noteq> [] \<and> (\<exists>r. reduce_on_epoch_end h (outs ! j) = Inr r))
            \<longrightarrow> auto_reduce_result_objs h outs = Inl IndexError"
    using auto_reduce_first_empty [OF i empty, of h] by blast
  ultimately show ?thesis
    using auto_reduce_empty_fails [OF mem, of h]
      run_eval_epoch_end_empty_fails [OF mem, of h s test_mode dataloaders]
    by blast
qed

theorem empty_output_list_raises_witness:
  "auto_reduce_result_objs (structured_hooks ''val_acc'') [[monitored (1/2) 1], []] = Inl IndexError
   \<and> gather_epoch_end_eval_results (structured_hooks ''val_acc'') [[monitored (1/2) 1], []]
       = Inl IndexError
   \<and> (\<exists>e. run_eval_epoch_end (structured_hooks ''val_acc'') idle_trainer False
             [[monitored (1/2) 1], []] [[Some 1], [None]] True = Inl e)"
proof -
  let ?outs = "[[monitored (1/2) 1], []]"
  let ?h = "structured_hooks ''val_acc''"
  have i: "1 < length ?outs" by simp
  have empty: "?outs ! 1 = []" by simp
  have red: "\<forall>j<1. ?outs ! j \<noteq> [] \<and> (\<exists>r. reduce_on_epoch_end ?h (?outs ! j) = Inr r)"
    by (simp add: sample_defs)
  have gat: "\<forall>j<1. ?outs ! j \<noteq> [] \<and> (\<exists>r. gather ?h (?outs ! j) = Inr r)"
    by (simp add: sample_defs)
  from empty_output_list_raises [OF i empty, of ?h idle_trainer False "[[Some 1], [None]]"] red gat
  show ?thesis by blast
qed

text \<open>A validation run over two sources with the limits 1 and 0 and Structured-variant
  results: the second source records nothing and the run ends with the index error.\<close>

lemma silent_source_aborts_run:
  "run_evaluation (structured_hooks ''val_acc'')
     (idle_trainer\<lparr>val_dataloaders := Some [[Some (1/2)], [Some (3/10)]],
                   num_val_batches := MList [1, 0]\<rparr>) False = Inl IndexError"
  by (simp add: run_defs sample_defs)

subsection \<open>The reserved slots\<close>

lemma is_scalar_mean: "is_scalar (mean h t)"
  by (simp add: mean_def)

lemma auto_reduce_nth:
  "auto_reduce_result_objs h outs = Inr rs \<Longrightarrow>
   length rs = length outs \<and>
   (\<forall>i<length outs. \<exists>r. reduce_on_epoch_end h (outs ! i) = Inr r \<and> rs ! i = mean_reserved h r)"
proof (induction outs arbitrary: rs)
  case Nil
  then show ?case by simp
next
  case (Cons dl_output rest)
  from Cons.prems obtain r rs' where r: "reduce_on_epoch_end h dl_output = Inr r"
    and rest: "auto_reduce_result_objs h rest = Inr rs'" and rs: "rs = mean_reserved h r # rs'"
    by (auto split: list.splits sum.splits)
  from Cons.IH [OF rest] have len: "length rs' = length rest"
    and nth: "\<forall>i<length rest. \<exists>r. reduce_on_epoch_end h (rest ! i) = Inr r \<and> rs' ! i = mean_reserved h r"
    by simp_all
  show ?case
  proof (intro conjI allI impI)
    show "length rs = length (dl_output # rest)" by (simp add: rs len)
  next
    fix i assume "i < length (dl_output # rest)"
    then show "\<exists>r. reduce_on_epoch_end h ((dl_output # rest) ! i) = Inr r \<and> rs ! i = mean_reserved h r"
      using r nth by (cases i) (simp_all add: rs)
  qed
qed

lemma gather_each_nth:
  "gather_each h outs = Inr rs \<Longrightarrow>
   length rs = length outs \<and>
   (\<forall>i<length outs. \<exists>r. gather h (outs ! i) = Inr r \<and> rs ! i = mean_reserved h r)"
proof (induction outs arbitrary: rs)
  case Nil
  then show ?case by simp
next
  case (Cons epoch_output rest)
  from Cons.prems obtain r rs' where r: "gather h epoch_output = Inr r"
    and rest: "gather_each h rest = Inr rs'" and rs: "rs = mean_reserved h r # rs'"
    by (auto split: list.splits sum.splits)
  from Cons.IH [OF rest] have len: "length rs' = length rest"
    and nth: "\<forall>i<length rest. \<exists>r. gather h (rest ! i) = Inr r \<and> rs' ! i = mean_reserved h r"
    by simp_all
  show ?case
  proof (intro conjI allI impI)
    show "length rs = length (epoch_output # rest)" by (simp add: rs len)
  next
    fix i assume "i < length (epoch_output # rest)"
    then show "\<exists>r. gather h ((epoch_output # rest) ! i) = Inr r \<and> rs ! i = mean_reserved h r"
      using r nth by (cases i) (simp_all add: rs)
  qed
qed

text \<open>The two loops return when every source has an output and the operation of the
  result container returns on the outputs of every source.\<close>

lemma auto_reduce_returns:
  "\<forall>dl_output\<in>set outs. dl_output \<noteq> [] \<and> (\<exists>r. reduce_on_epoch_end h dl_output = Inr r) \<Longrightarrow>
   \<exists>rs. auto_reduce_result_objs h outs = Inr rs"
proof (induction outs)
  case Nil
  then show ?case by simp
next
  case (Cons dl_output rest)
  from Cons.prems obtain first others r where "dl_output = first # others"
    and "reduce_on_epoch_end h dl_output = Inr r"
    by (cases dl_output) auto
  moreover from Cons obtain rs where "auto_reduce_result_objs h rest = Inr rs" by auto
  ultimately show ?case by simp
qed

lemma gather_each_returns:
  "\<forall>epoch_output\<in>set outs. epoch_output \<noteq> [] \<and> (\<exists>r. gather h epoch_output = Inr r) \<Longrightarrow>
   \<exists>rs. gather_each h outs = Inr rs"
proof (induction outs)
  case Nil
  then show ?case by simp
next
  case (Cons epoch_output rest)
  from Cons.prems obtain first others r where "epoch_output = first # others"
    and "gather h epoch_output = Inr r"
    by (cases epoch_output) auto
  moreover from Cons obtain rs where "gather_each h rest = Inr rs" by auto
  ultimately show ?case by simp
qed

lemma as_results_VResult: "as_results (map VResult rs) = Inr rs"
  by (induction rs) simp_all

lemma map_filter_all_Some:
  "map slot rs = map Some ts \<Longrightarrow> List.map_filter slot rs = ts"
proof (induction rs arbitrary: ts)
  case Nil
  then show ?case by simp
next
  case (Cons r rs)
  then obtain t ts' where "ts = t # ts'" "slot r = Some t" "map slot rs = map Some ts'"
    by (cases ts) auto
  with Cons.IH show ?case by simp
qed

lemma entries_scalars: "concat (map entries (map Scalar xs)) = xs"
  by (induction xs) simp_all

lemma stack_slot_scalars:
  assumes "map slot rs = map (\<lambda>x. Some (Scalar x)) xs" and "xs \<noteq> []"
  shows "stack_slot slot rs = Some (Batched xs)"
proof -
  from assms(1) have "map slot rs = map Some (map Scalar xs)" by simp
  then have "List.map_filter slot rs = map Scalar xs" by (rule map_filter_all_Some)
  moreover have "stack (map Scalar xs) = Batched xs"
    unfolding stack_def entries_scalars ..
  moreover from assms(2) obtain t ts where "map Scalar xs = t # ts" by (cases xs) auto
  ultimately show ?thesis by (simp add: stack_slot_def)
qed

lemma mean_stacked_slot:
  assumes "map slot rs = map (\<lambda>x. Some (Scalar x)) xs" and "xs \<noteq> []"
  shows "map_option (mean h) (stack_slot slot rs) = Some (Scalar (mean_of h xs))"
  by (simp add: stack_slot_scalars [OF assms] mean_def)

lemma result_gather_slots:
  "result_gather (map VResult rs) = Inr r \<Longrightarrow>
   checkpoint_on r = stack_slot checkpoint_on rs \<and> early_stop_on r = stack_slot early_stop_on rs"
  by (auto simp: result_gather_def as_results_VResult)

lemma result_reduce_slots:
  "result_reduce_on_epoch_end m (map VResult rs) = Inr r \<Longrightarrow>
   checkpoint_on r = stack_slot checkpoint_on rs \<and> early_stop_on r = stack_slot early_stop_on rs"
  by (auto simp: result_reduce_on_epoch_end_def result_gather_def as_results_VResult)

lemma reserved_scalar_mean_reserved: "reserved_scalar (mean_reserved h r)"
  by (simp add: reserved_scalar_def mean_reserved_def is_scalar_mean split: option.splits)

lemma auto_reduce_reserved_scalar:
  "auto_reduce_result_objs h outs = Inr rs \<Longrightarrow> list_all reserved_scalar rs"
proof (induction outs arbitrary: rs)
  case Nil
  then show ?case by simp
next
  case (Cons dl_output rest)
  then show ?case
    by (auto simp: reserved_scalar_mean_reserved split: list.splits sum.splits)
qed

lemma gather_each_reserved_scalar:
  "gather_each h outs = Inr rs \<Longrightarrow> list_all reserved_scalar rs"
proof (induction outs arbitrary: rs)
  case Nil
  then show ?case by simp
next
  case (Cons epoch_output rest)
  then show ?case
    by (auto simp: reserved_scalar_mean_reserved split: list.splits sum.splits)
qed

lemma gather_epoch_end_cases:
  "gather_epoch_end_eval_results h outs = Inr v \<Longrightarrow>
   \<exists>rs. gather_each h outs = Inr rs \<and>
        v = (if length rs = 1 then VResult (rs ! 0) else VList (map VResult rs))"
  by (auto simp: gather_epoch_end_eval_results_def split: sum.splits)

lemma nth_result_collapsed:
  assumes "i < length gs"
  shows "nth_result (if length gs = 1 then VResult (gs ! 0) else VList (map VResult gs)) i
           = Some (gs ! i)"
  using assms by (cases "length gs = 1") auto

text \<open>The value of \<^verbatim>\<open>__gather_epoch_end_eval_results\<close>, source by source.\<close>

lemma gather_epoch_end_pinned:
  assumes "gather_epoch_end_eval_results h outs = Inr v"
  shows "\<exists>gs. gather_each h outs = Inr gs \<and> length gs = length outs
            \<and> list_all reserved_scalar gs
            \<and> (\<forall>i<length outs. \<exists>r. gather h (outs ! i) = Inr r \<and> gs ! i = mean_reserved h r)
            \<and> v = (if length outs = 1 then VResult (gs ! 0) else VList (map VResult gs))"
proof -
  from gather_epoch_end_cases [OF assms] obtain gs where gs: "gather_each h outs = Inr gs"
    and v: "v = (if length gs = 1 then VResult (gs ! 0) else VList (map VResult gs))"
    by blast
  from gather_each_nth [OF gs] have len: "length gs = length outs"
    and nth: "\<forall>i<length outs. \<exists>r. gather h (outs ! i) = Inr r \<and> gs ! i = mean_reserved h r"
    by simp_all
  from gs len nth v gather_each_reserved_scalar [OF gs] show ?thesis by auto
qed

text \<open>
  Claim C6. With the operations of the result container as the spec describes them and the
  single-precision arithmetic of the mean: three batches of one source with the
  \<^verbatim>\<open>checkpoint_on\<close> values 0.5, 0.3 and 0.7 and no user hook reduce to a single result
  whose \<^verbatim>\<open>checkpoint_on\<close> is the scalar 0.5. In general, for any collaborators and any
  arithmetic \<open>mean_of h\<close> of \<^verbatim>\<open>mean()\<close>: the auto-reduce and the gather preprocessing
  return when every source has an output that the operation of the container accepts;
  what they return holds, for every source in order, the result that the container
  operation gives for the outputs of the source, with each reserved slot that is present
  replaced by its \<^verbatim>\<open>mean()\<close>, a zero-dimensional tensor (the gather preprocessing
  returns the bare result when there is one source and the list of the results otherwise);
  and when the results of the batches of a source carry the scalars \<open>xs\<close> in a reserved
  slot, the result of that source carries the scalar \<open>mean_of h xs\<close> there.
\<close>

theorem reserved_slots_are_scalar_means:
  "run_eval_epoch_end (structured_hooks ''val_acc'') idle_trainer False
       [map (\<lambda>x. VResult (step_result ''val_acc'' x)) [1/2, 3/10, 7/10]]
       [[Some (1/2), Some (3/10), Some (7/10)]] True
     = Inr (VList [VResult \<lparr>epoch_pbar_metrics = [],
                     epoch_log_metrics = [(''val_acc'', Scalar (Val (1/2)))],
                     result_callback_metrics = [(''val_acc'', Scalar (Val (1/2)))],
                     checkpoint_on = Some (Scalar (Val (1/2))),
                     early_stop_on = None\<rparr>], idle_trainer)
   \<and> ((\<forall>dl_output\<in>set outs. dl_output \<noteq> [] \<and> (\<exists>r. reduce_on_epoch_end h dl_output = Inr r))
        \<longrightarrow> (\<exists>rs. auto_reduce_result_objs h outs = Inr rs))
   \<and> (auto_reduce_result_objs h outs = Inr rs \<longrightarrow>
        length rs = length outs \<and> list_all reserved_scalar rs
        \<and> (\<forall>i<length outs. \<exists>r. reduce_on_epoch_end h (outs ! i) = Inr r
              \<and> rs ! i = r\<lparr>checkpoint_on := map_option (mean h) (checkpoint_on r),
                           early_stop_on := map_option (mean h) (early_stop_on r)\<rparr>))
   \<and> ((\<forall>epoch_output\<in>set outs. epoch_output \<noteq> [] \<and> (\<exists>r. gather h epoch_output = Inr r))
        \<longrightarrow> (\<exists>v. gather_epoch_end_eval_results h outs = Inr v))
   \<and> (gather_epoch_end_eval_results h outs = Inr v \<longrightarrow>
        (\<exists>gs. length gs = length outs \<and> list_all reserved_scalar gs
            \<and> (\<forall>i<length outs. \<exists>r. gather h (outs ! i) = Inr r
                  \<and> gs ! i = r\<lparr>checkpoint_on := map_option (mean h) (checkpoint_on r),
                               early_stop_on := map_option (mean h) (early_stop_on r)\<rparr>)
            \<and> v = (if length outs = 1 then VResult (gs ! 0) else VList (map VResult gs))))
   \<and> (reduce_on_epoch_end h = result_reduce_on_epoch_end m
        \<and> auto_reduce_result_objs h outs = Inr rs \<and> i < length outs
        \<and> outs ! i = map VResult bs \<and> xs \<noteq> [] \<longrightarrow>
          (map checkpoint_on bs = map (\<lambda>x. Some (Scalar x)) xs \<longrightarrow>
             checkpoint_on (rs ! i) = Some (Scalar (mean_of h xs)))
        \<and> (map early_stop_on bs = map (\<lambda>x. Some (Scalar x)) xs \<longrightarrow>
             early_stop_on (rs ! i) = Some (Scalar (mean_of h xs))))
   \<and> (gather h = result_gather
        \<and> gather_epoch_end_eval_results h outs = Inr v \<and> i < length outs
        \<and> outs ! i = map VResult bs \<and> xs \<noteq> [] \<longrightarrow>
          (\<exists>g. nth_result v i = Some g
             \<and> (map checkpoint_on bs = map (\<lambda>x. Some (Scalar x)) xs \<longrightarrow>
                  checkpoint_on g = Some (Scalar (mean_of h xs)))
             \<and> (map early_stop_on bs = map (\<lambda>x. Some (Scalar x)) xs \<longrightarrow>
                  early_stop_on g = Some (Scalar (mean_of h xs)))))"
  (is "?scenario \<and> ?auto_returns \<and> ?auto_pinned \<and> ?gather_returns \<and> ?gather_pinned
       \<and> ?auto_mean \<and> ?gather_mean")
proof (intro conjI)
  show ?scenario
    by (simp add: run_eval_epoch_end_def single_unwrap_def user_reduce_def structured_hooks_def
        legacy_hooks_def result_reduce_on_epoch_end_def result_gather_def stack_view_def
        stack_slot_def stack_def mean_view_def mean_reserved_def mean_def step_result_def
        float32_mean_sample)
next
  show ?auto_returns by (simp add: auto_reduce_returns)
next
  show ?auto_pinned
  proof
    assume run: "auto_reduce_result_objs h outs = Inr rs"
    from auto_reduce_nth [OF run] auto_reduce_reserved_scalar [OF run]
    show "length rs = length outs \<and> list_all reserved_scalar rs
        \<and> (\<forall>i<length outs. \<exists>r. reduce_on_epoch_end h (outs ! i) = Inr r
              \<and> rs ! i = r\<lparr>checkpoint_on := map_option (mean h) (checkpoint_on r),
                           early_stop_on := map_option (mean h) (early_stop_on r)\<rparr>)"
      by (simp add: mean_reserved_def)
  qed
next
  show ?gather_returns
  proof
    assume "\<forall>epoch_output\<in>set outs. epoch_output \<noteq> [] \<and> (\<exists>r. gather h epoch_output = Inr r)"
    then obtain gs where "gather_each h outs = Inr gs"
      using gather_each_returns by blast
    then show "\<exists>v. gather_epoch_end_eval_results h outs = Inr v"
      by (simp add: gather_epoch_end_eval_results_def del: gather_each.simps)
  qed
next
  show ?gather_pinned
  proof
    assume "gather_epoch_end_eval_results h outs = Inr v"
    from gather_epoch_end_pinned [OF this] obtain gs where "length gs = length outs"
      and "list_all reserved_scalar gs"
      and "\<forall>i<length outs. \<exists>r. gather h (outs ! i) = Inr r \<and> gs ! i = mean_reserved h r"
      and "v = (if length outs = 1 then VResult (gs ! 0) else VList (map VResult gs))"
      by blast
    then have "length gs = length outs \<and> list_all reserved_scalar gs
            \<and> (\<forall>i<length outs. \<exists>r. gather h (outs ! i) = Inr r
                  \<and> gs ! i = r\<lparr>checkpoint_on := map_option (mean h) (checkpoint_on r),
                               early_stop_on := map_option (mean h) (early_stop_on r)\<rparr>)
            \<and> v = (if length outs = 1 then VResult (gs ! 0) else VList (map VResult gs))"
      by (simp add: mean_reserved_def)
    then show "\<exists>gs. length gs = length outs \<and> list_all reserved_scalar gs
            \<and> (\<forall>i<length outs. \<exists>r. gather h (outs ! i) = Inr r
                  \<and> gs ! i = r\<lparr>checkpoint_on := map_option (mean h) (checkpoint_on r),
                               early_stop_on := map_option (mean h) (early_stop_on r)\<rparr>)
            \<and> v = (if length outs = 1 then VResult (gs ! 0) else VList (map VResult gs))"
      by (rule exI)
  qed
next
  show ?auto_mean
  proof (intro impI, elim conjE)
    assume h: "reduce_on_epoch_end h = result_reduce_on_epoch_end m"
      and run: "auto_reduce_result_objs h outs = Inr rs" and i: "i < length outs"
      and bs: "outs ! i = map VResult bs" and xs: "xs \<noteq> []"
    from auto_reduce_nth [OF run] i obtain r
      where r: "reduce_on_epoch_end h (outs ! i) = Inr r" and nth: "rs ! i = mean_reserved h r"
      by blast
    from r have slots: "checkpoint_on r = stack_slot checkpoint_on bs"
      "early_stop_on r = stack_slot early_stop_on bs"
      using result_reduce_slots [of m bs r] by (simp_all add: h bs)
    show "(map checkpoint_on bs = map (\<lambda>x. Some (Scalar x)) xs \<longrightarrow>
             checkpoint_on (rs ! i) = Some (Scalar (mean_of h xs)))
        \<and> (map early_stop_on bs = map (\<lambda>x. Some (Scalar x)) xs \<longrightarrow>
             early_stop_on (rs ! i) = Some (Scalar (mean_of h xs)))"
      using mean_stacked_slot [of checkpoint_on bs xs h] mean_stacked_slot [of early_stop_on bs xs h] xs
      by (simp add: nth mean_reserved_def slots)
  qed
next
  show ?gather_mean
  proof (intro impI, elim conjE)
    assume h: "gather h = result_gather"
      and run: "gather_epoch_end_eval_results h outs = Inr v" and i: "i < length outs"
      and bs: "outs ! i = map VResult bs" and xs: "xs \<noteq> []"
    from gather_epoch_end_cases [OF run] obtain gs where gs: "gather_each h outs = Inr gs"
      and v: "v = (if length gs = 1 then VResult (gs ! 0) else VList (map VResult gs))"
      by blast
    from gather_each_nth [OF gs] i obtain r
      where len: "length gs = length outs"
        and r: "gather h (outs ! i) = Inr r" and nth: "gs ! i = mean_reserved h r"
      by blast
    from r have slots: "checkpoint_on r = stack_slot checkpoint_on bs"
      "early_stop_on r = stack_slot early_stop_on bs"
      using result_gather_slots [of bs r] by (simp_all add: h bs)
    from i len have "nth_result v i = Some (gs ! i)"
      unfolding v by (intro nth_result_collapsed) simp
    moreover have "(map checkpoint_on bs = map (\<lambda>x. Some (Scalar x)) xs \<longrightarrow>
             checkpoint_on (gs ! i) = Some (Scalar (mean_of h xs)))
        \<and> (map early_stop_on bs = map (\<lambda>x. Some (Scalar x)) xs \<longrightarrow>
             early_stop_on (gs ! i) = Some (Scalar (mean_of h xs)))"
      using mean_stacked_slot [of checkpoint_on bs xs h] mean_stacked_slot [of early_stop_on bs xs h] xs
      by (simp add: nth mean_reserved_def slots)
    ultimately show "\<exists>g. nth_result v i = Some g
             \<and> (map checkpoint_on bs = map (\<lambda>x. Some (Scalar x)) xs \<longrightarrow>
                  checkpoint_on g = Some (Scalar (mean_of h xs)))
             \<and> (map early_stop_on bs = map (\<lambda>x. Some (Scalar x)) xs \<longrightarrow>
                  early_stop_on g = Some (Scalar (mean_of h xs)))"
      by blast
  qed
qed

theorem reserved_slots_are_scalar_means_witness:
  "(\<exists>rs. auto_reduce_result_objs (structured_hooks ''val_acc'')
            [[monitored (1/2) 1, monitored (3/10) 2, monitored (7/10) 3]] = Inr rs
         \<and> length rs = 1
         \<and> list_all reserved_scalar rs
         \<and> checkpoint_on (rs ! 0) = Some (Scalar (Val (1/2)))
         \<and> early_stop_on (rs ! 0) = Some (Scalar (Val 2)))
   \<and> (\<exists>v g. gather_epoch_end_eval_results (structured_hooks ''val_acc'')
            [[monitored (1/2) 1, monitored (3/10) 2, monitored (7/10) 3]] = Inr v
         \<and> v = VResult g
         \<and> reserved_scalar g
         \<and> checkpoint_on g = Some (Scalar (Val (1/2)))
         \<and> early_stop_on g = Some (Scalar (Val 2)))"
proof -
  let ?h = "structured_hooks ''val_acc''"
  let ?outs = "[[monitored (1/2) 1, monitored (3/10) 2, monitored (7/10) 3]]"
  let ?bs = "[(step_result ''val_acc'' (1/2))\<lparr>early_stop_on := Some (Scalar (Val (float32 1)))\<rparr>,
              (step_result ''val_acc'' (3/10))\<lparr>early_stop_on := Some (Scalar (Val (float32 2)))\<rparr>,
              (step_result ''val_acc'' (7/10))\<lparr>early_stop_on := Some (Scalar (Val (float32 3)))\<rparr>]"
  let ?cp = "[Val (float32 (1/2)), Val (float32 (3/10)), Val (float32 (7/10))]"
  let ?es = "[Val (float32 1), Val (float32 2), Val (float32 3)]"
  have red: "reduce_on_epoch_end ?h = result_reduce_on_epoch_end float32_mean"
    and gat: "gather ?h = result_gather"
    and arith: "mean_of ?h = float32_mean"
    by (simp_all add: structured_hooks_def legacy_hooks_def)
  have i: "0 < length ?outs" by simp
  have bs: "?outs ! 0 = map VResult ?bs" by (simp add: monitored_def)
  have cp: "map checkpoint_on ?bs = map (\<lambda>x. Some (Scalar x)) ?cp"
    by (simp add: step_result_def)
  have es: "map early_stop_on ?bs = map (\<lambda>x. Some (Scalar x)) ?es"
    by simp
  have ne: "?cp \<noteq> []" "?es \<noteq> []" by simp_all
  have ok_red: "\<forall>dl_output\<in>set ?outs. dl_output \<noteq> []
      \<and> (\<exists>r. reduce_on_epoch_end ?h dl_output = Inr r)"
    by (simp add: red monitored_def result_reduce_on_epoch_end_def result_gather_def)
  have ok_gat: "\<forall>epoch_output\<in>set ?outs. epoch_output \<noteq> []
      \<and> (\<exists>r. gather ?h epoch_output = Inr r)"
    by (simp add: gat monitored_def result_gather_def)
  note T = reserved_slots_are_scalar_means [where h = ?h and outs = ?outs and i = 0 and bs = ?bs
      and m = float32_mean]
  from T [where xs = ?cp] ok_red obtain rs where rs: "auto_reduce_result_objs ?h ?outs = Inr rs"
    by blast
  from T [where xs = ?cp] ok_gat obtain v where v: "gather_epoch_end_eval_results ?h ?outs = Inr v"
    by blast
  have a0: "length rs = 1 \<and> list_all reserved_scalar rs"
    using T [where xs = ?cp and rs = rs] rs by simp
  have a2: "checkpoint_on (rs ! 0) = Some (Scalar (Val (1/2)))"
    using T [where xs = ?cp and rs = rs] red rs i bs cp ne
    by (simp add: arith float32_mean_sample)
  have a3: "early_stop_on (rs ! 0) = Some (Scalar (Val 2))"
    using T [where xs = ?es and rs = rs] red rs i bs es ne
    by (simp add: arith float32_mean_monitored)
  from T [where xs = ?cp and v = v] v obtain gs where len: "length gs = length ?outs"
    and scalar: "list_all reserved_scalar gs"
    and val: "v = (if length ?outs = 1 then VResult (gs ! 0) else VList (map VResult gs))"
    by blast
  from val have v0: "v = VResult (gs ! 0)" by simp
  from len scalar have g0: "reserved_scalar (gs ! 0)"
    by (cases gs) simp_all
  from v0 have nth0: "\<And>g. nth_result v 0 = Some g \<Longrightarrow> g = gs ! 0" by simp
  have g2: "checkpoint_on (gs ! 0) = Some (Scalar (Val (1/2)))"
    using T [where xs = ?cp and v = v] gat v i bs cp ne nth0
    by (auto simp: arith float32_mean_sample)
  have g3: "early_stop_on (gs ! 0) = Some (Scalar (Val 2))"
    using T [where xs = ?es and v = v] gat v i bs es ne nth0
    by (auto simp: arith float32_mean_monitored)
  from rs a0 a2 a3 v v0 g0 g2 g3 show ?thesis by blast
qed

section \<open>Properties of the run controller\<close>

text \<open>
  Claim C7. When the selected mode has no data sources, \<^verbatim>\<open>run_evaluation\<close> returns two
  empty lists and leaves the trainer as the selection of the sources left it. When there
  are sources and the limits sum to zero, it returns two empty lists and leaves the trainer
  as the selection left it but for the start hook. Both are normal returns; nothing of the
  engine, the reducer or the publisher has touched the trainer.
\<close>

theorem nothing_to_evaluate_returns_empty:
  "(selected_dataloaders (select_dataloaders h s test_mode) test_mode = None \<longrightarrow>
      run_evaluation h s test_mode = Inr (([], VList []), select_dataloaders h s test_mode))
   \<and> (selected_dataloaders (select_dataloaders h s test_mode) test_mode = Some dataloaders
        \<and> selected_max_batches (select_dataloaders h s test_mode) test_mode = MList M
        \<and> sum_list M = 0 \<longrightarrow>
      run_evaluation h s test_mode =
        Inr (([], VList []), emit [start_event test_mode] (select_dataloaders h s test_mode)))"
  by (simp add: run_evaluation_def Let_def)

theorem nothing_to_evaluate_returns_empty_witness:
  "run_evaluation legacy_hooks idle_trainer False =
     Inr (([], VList []), emit [OnPrePerformanceCheck] idle_trainer)
   \<and> run_evaluation legacy_hooks
        (idle_trainer\<lparr>val_dataloaders := Some [[Some 1]], num_val_batches := MList [0]\<rparr>) False =
     Inr (([], VList []),
          emit [OnPrePerformanceCheck, OnValidationStart]
            (idle_trainer\<lparr>val_dataloaders := Some [[Some 1]], num_val_batches := MList [0]\<rparr>))"
proof -
  let ?s = "idle_trainer\<lparr>val_dataloaders := Some [[Some 1]], num_val_batches := MList [0]\<rparr>"
  have sel1: "select_dataloaders legacy_hooks idle_trainer False = emit [OnPrePerformanceCheck] idle_trainer"
    by (simp add: select_dataloaders_def legacy_hooks_def idle_trainer_def emit_def)
  have none: "selected_dataloaders (select_dataloaders legacy_hooks idle_trainer False) False = None"
    unfolding sel1 by (simp add: selected_dataloaders_def emit_def idle_trainer_def)
  have sel2: "select_dataloaders legacy_hooks ?s False = emit [OnPrePerformanceCheck] ?s"
    by (simp add: select_dataloaders_def legacy_hooks_def idle_trainer_def emit_def)
  have some: "selected_dataloaders (select_dataloaders legacy_hooks ?s False) False = Some [[Some 1]]"
    unfolding sel2 by (simp add: selected_dataloaders_def emit_def)
  have lim: "selected_max_batches (select_dataloaders legacy_hooks ?s False) False = MList [0]"
    unfolding sel2 by (simp add: selected_max_batches_def emit_def)
  have zero: "sum_list [0::int] = 0" by simp
  from nothing_to_evaluate_returns_empty [of legacy_hooks idle_trainer False] none
  have "run_evaluation legacy_hooks idle_trainer False =
     Inr (([], VList []), emit [OnPrePerformanceCheck] idle_trainer)"
    unfolding sel1 by simp
  moreover
  from nothing_to_evaluate_returns_empty [of legacy_hooks ?s False "[[Some 1]]" "[0]"] some lim zero
  have "run_evaluation legacy_hooks ?s False =
     Inr (([], VList []), emit [OnPrePerformanceCheck, OnValidationStart] ?s)"
    unfolding sel2 by (simp add: start_event_def emit_emit)
  ultimately show ?thesis by simp
qed

lemma evaluate_reducer:
  "evaluate h s dataloaders max_batches test_mode = Inr (res, s') \<Longrightarrow>
   \<exists>s4 s5. evaluation_dataloaders h test_mode 0 dataloaders
              (begin_epoch s dataloaders max_batches test_mode) = Inr s4
     \<and> run_eval_epoch_end h s4 test_mode (loop_outputs s4) dataloaders
          (is_using_eval_results h (loop_outputs s4)) = Inr (res, s5)"
  by (auto simp: evaluate_def Let_def split: sum.splits prod.splits)

lemma evaluate_list:
  "evaluate h s dataloaders max_batches test_mode = Inr (res, s') \<Longrightarrow> \<exists>xs. res = VList xs"
  using evaluate_reducer run_eval_epoch_end_list by blast

lemma run_evaluation_cases:
  assumes "run_evaluation h s test_mode = Inr ((rep, res), s')"
  shows "(rep = [] \<and> res = VList [])
       \<or> (\<exists>dataloaders s3 s4.
            selected_dataloaders (select_dataloaders h s test_mode) test_mode = Some dataloaders
            \<and> evaluate h (emit [start_event test_mode] (select_dataloaders h s test_mode)) dataloaders
                 (selected_max_batches (select_dataloaders h s test_mode) test_mode) test_mode
               = Inr (res, s3)
            \<and> log_evaluation_epoch_metrics h s3 res test_mode = Inr (rep, s4))"
  using assms
  by (auto simp: run_evaluation_def Let_def split: option.splits sum.splits if_splits prod.splits)

lemma evaluation_dataloaders_limits:
  "evaluation_dataloaders h test_mode d dls s = Inr s' \<Longrightarrow> dls \<noteq> [] \<Longrightarrow>
   d + length dls \<le> length (loop_max_batches s)"
proof (induction dls arbitrary: d s)
  case Nil
  then show ?case by simp
next
  case (Cons dl dls)
  from Cons.prems(1) have d: "d < length (loop_max_batches s)" by (simp split: if_splits)
  let ?t = "(emit (source_events h test_mode d (loop_max_batches s ! d) (process_dataloader h dl)) s)
               \<lparr>loop_outputs := loop_outputs s @
                  [source_outputs h test_mode d (loop_max_batches s ! d) (process_dataloader h dl)]\<rparr>"
  from Cons.prems(1) d have rest: "evaluation_dataloaders h test_mode (Suc d) dls ?t = Inr s'"
    by (simp add: evaluation_batches_source emit_def Let_def)
  show ?case
  proof (cases "dls = []")
    case True
    with d show ?thesis by simp
  next
    case False
    from Cons.IH [OF rest False] show ?thesis by (simp add: emit_def)
  qed
qed

lemma evaluation_dataloaders_outputs:
  assumes "evaluation_dataloaders h test_mode 0 dataloaders
             (begin_epoch s dataloaders max_batches test_mode) = Inr s4"
  shows "loop_outputs s4 = epoch_outputs h test_mode dataloaders max_batches"
proof (cases "dataloaders = []")
  case True
  with assms show ?thesis
    by (auto simp: epoch_outputs_def begin_epoch_def loop_setup_def emit_def)
next
  case False
  let ?s0 = "begin_epoch s dataloaders max_batches test_mode"
  have lm: "loop_max_batches ?s0 = limits_per_source max_batches dataloaders"
    and lo: "loop_outputs ?s0 = []"
    by (simp_all add: begin_epoch_def loop_setup_def emit_def)
  from evaluation_dataloaders_limits [OF assms False]
  have "0 + length dataloaders \<le> length (loop_max_batches ?s0)" by simp
  from evaluation_dataloaders_run [OF this, of h test_mode] assms
  show ?thesis by (auto simp: lm lo epoch_outputs_def)
qed

text \<open>
  Claim C2, as amended. The epoch result that \<^verbatim>\<open>run_evaluation\<close> returns is always a list:
  it is the value of the epoch reduction as the reducer normalised it, and
  \<^verbatim>\<open>run_evaluation\<close> unwraps nothing. Unless the run was skipped, it is determined by the
  epoch output \<open>outs\<close> of the engine: it is the return value of the overridden hook made a
  list (a bare value \<open>v\<close> comes back as \<open>[v]\<close>), or the list of the auto-reduced results,
  one per data source, or the raw outputs (those of the only source when there is one).
\<close>

theorem run_evaluation_returns_reducer_list:
  assumes run: "run_evaluation h s test_mode = Inr ((rep, res), s')"
  shows "(\<exists>xs. res = VList xs)
       \<and> (res = VList []
          \<or> (\<exists>dataloaders outs raw.
               selected_dataloaders (select_dataloaders h s test_mode) test_mode = Some dataloaders
               \<and> outs = epoch_outputs h test_mode dataloaders
                          (selected_max_batches (select_dataloaders h s test_mode) test_mode)
               \<and> single_unwrap outs dataloaders = Inr raw
               \<and> (is_overridden h (legacy_name test_mode) \<longrightarrow>
                    (\<exists>v. hook_input h outs (is_using_eval_results h outs) raw = Inr v
                        \<and> res = as_list (legacy_hook h test_mode v)))
               \<and> (\<not> is_overridden h (legacy_name test_mode)
                    \<and> is_overridden h (epoch_end_name test_mode) \<longrightarrow>
                    (\<exists>v. hook_input h outs (is_using_eval_results h outs) raw = Inr v
                        \<and> res = as_list (epoch_end_hook h test_mode v)))
               \<and> (\<not> is_overridden h (legacy_name test_mode)
                    \<and> \<not> is_overridden h (epoch_end_name test_mode)
                    \<and> is_using_eval_results h outs \<longrightarrow>
                    (\<exists>rs. auto_reduce_result_objs h outs = Inr rs \<and> length rs = length dataloaders
                          \<and> res = VList (map VResult rs)))
               \<and> (\<not> is_overridden h (legacy_name test_mode)
                    \<and> \<not> is_overridden h (epoch_end_name test_mode)
                    \<and> \<not> is_using_eval_results h outs \<longrightarrow>
                    res = raw)))"
proof -
  let ?sel = "select_dataloaders h s test_mode"
  from run_evaluation_cases [OF run]
  consider (skipped) "res = VList []"
    | (ran) dataloaders s3 where "selected_dataloaders ?sel test_mode = Some dataloaders"
        "evaluate h (emit [start_event test_mode] ?sel) dataloaders
           (selected_max_batches ?sel test_mode) test_mode = Inr (res, s3)"
    by blast
  then show ?thesis
  proof cases
    case skipped
    then show ?thesis by simp
  next
    case ran
    from evaluate_reducer [OF ran(2)] obtain s4 s5
      where eng: "evaluation_dataloaders h test_mode 0 dataloaders
              (begin_epoch (emit [start_event test_mode] ?sel) dataloaders
                 (selected_max_batches ?sel test_mode) test_mode) = Inr s4"
        and red: "run_eval_epoch_end h s4 test_mode (loop_outputs s4) dataloaders
          (is_using_eval_results h (loop_outputs s4)) = Inr (res, s5)"
      by blast
    let ?outs = "epoch_outputs h test_mode dataloaders (selected_max_batches ?sel test_mode)"
    have outs: "loop_outputs s4 = ?outs" by (rule evaluation_dataloaders_outputs [OF eng])
    have len: "length ?outs = length dataloaders" by (simp add: epoch_outputs_def)
    note red = red [unfolded outs]
    from run_eval_epoch_end_list [OF red] have list: "\<exists>xs. res = VList xs" .
    from run_eval_epoch_end_needs_raw [OF red] obtain raw
      where raw: "single_unwrap ?outs dataloaders = Inr raw" by blast
    note cases = run_eval_epoch_end_cases [OF raw, where h = h and test_mode = test_mode and s = s4
        and using_eval_result = "is_using_eval_results h ?outs"]
    have c1: "is_overridden h (legacy_name test_mode) \<longrightarrow>
                    (\<exists>v. hook_input h ?outs (is_using_eval_results h ?outs) raw = Inr v
                        \<and> res = as_list (legacy_hook h test_mode v))"
      using cases(1) red by (cases "hook_input h ?outs (is_using_eval_results h ?outs) raw") auto
    have c2: "\<not> is_overridden h (legacy_name test_mode)
                    \<and> is_overridden h (epoch_end_name test_mode) \<longrightarrow>
                    (\<exists>v. hook_input h ?outs (is_using_eval_results h ?outs) raw = Inr v
                        \<and> res = as_list (epoch_end_hook h test_mode v))"
      using cases(2) red by (cases "hook_input h ?outs (is_using_eval_results h ?outs) raw") auto
    have c3: "\<not> is_overridden h (legacy_name test_mode)
                    \<and> \<not> is_overridden h (epoch_end_name test_mode)
                    \<and> is_using_eval_results h ?outs \<longrightarrow>
                    (\<exists>rs. auto_reduce_result_objs h ?outs = Inr rs \<and> length rs = length dataloaders
                          \<and> res = VList (map VResult rs))"
    proof
      assume a: "\<not> is_overridden h (legacy_name test_mode)
                    \<and> \<not> is_overridden h (epoch_end_name test_mode)
                    \<and> is_using_eval_results h ?outs"
      with cases(3) red obtain rs where rs: "auto_reduce_result_objs h ?outs = Inr rs"
        and res: "res = VList (map VResult rs)"
        by (cases "auto_reduce_result_objs h ?outs") auto
      from auto_reduce_nth [OF rs] len have "length rs = length dataloaders" by simp
      with rs res show "\<exists>rs. auto_reduce_result_objs h ?outs = Inr rs \<and> length rs = length dataloaders
                          \<and> res = VList (map VResult rs)" by blast
    qed
    have c4: "\<not> is_overridden h (legacy_name test_mode)
                    \<and> \<not> is_overridden h (epoch_end_name test_mode)
                    \<and> \<not> is_using_eval_results h ?outs \<longrightarrow>
                    res = raw"
      using cases(4) red by auto
    from ran(1) raw c1 c2 c3 c4 list show ?thesis by blast
  qed
qed

theorem run_evaluation_returns_reducer_list_witness:
  "(\<exists>xs. VList [VDict [(''val_loss'', VTensor (Scalar (Val 1)))]] = VList xs)
   \<and> (\<exists>dataloaders v.
           selected_dataloaders (select_dataloaders epoch_end_hooks val_trainer False) False
             = Some dataloaders
           \<and> VList [VDict [(''val_loss'', VTensor (Scalar (Val 1)))]]
                    = as_list (epoch_end_hook epoch_end_hooks False v))
   \<and> (\<exists>v. VList [VDict [(''val_loss'', VTensor (Scalar (Val 2)))]]
                    = as_list (legacy_hook both_hooks False v))
   \<and> (\<exists>rs. length rs = length [[Some (1/2), Some (3/10), Some ((7::rat)/10)]]
           \<and> VList [VResult \<lparr>epoch_pbar_metrics = [],
                       epoch_log_metrics = [(''val_acc'', Scalar (Val (1/2)))],
                       result_callback_metrics = [(''val_acc'', Scalar (Val (1/2)))],
                       checkpoint_on = Some (Scalar (Val (1/2))),
                       early_stop_on = None\<rparr>] = VList (map VResult rs))
   \<and> single_unwrap
        (epoch_outputs legacy_hooks False [[Some (1/2), Some (3/10), Some (7/10)]] (MList [3]))
        [[Some (1/2), Some (3/10), Some ((7::rat)/10)]]
       = Inr (VList [VTensor (Scalar (Val 0)), VTensor (Scalar (Val 1)), VTensor (Scalar (Val 2))])"
proof -
  let ?dls = "[[Some (1/2), Some (3/10), Some ((7::rat)/10)]]"
  have sel: "\<And>h. selected_dataloaders (select_dataloaders h val_trainer False) False = Some ?dls"
    and lim: "\<And>h. selected_max_batches (select_dataloaders h val_trainer False) False = MList [3]"
    by (simp_all add: select_dataloaders_def selected_dataloaders_def selected_max_batches_def
        emit_def val_trainer_def idle_trainer_def)
  \<comment> \<open>the current hook\<close>
  let ?r1 = "VList [VDict [(''val_loss'', VTensor (Scalar (Val 1)))]]"
  have "\<exists>rep s'. run_evaluation epoch_end_hooks val_trainer False = Inr ((rep, ?r1), s')"
    by (simp add: run_defs sample_defs)
  then obtain rep1 s1 where run1: "run_evaluation epoch_end_hooks val_trainer False = Inr ((rep1, ?r1), s1)"
    by blast
  have h1: "\<not> is_overridden epoch_end_hooks (legacy_name False)"
    "is_overridden epoch_end_hooks (epoch_end_name False)"
    by (simp_all add: epoch_end_hooks_def legacy_hooks_def legacy_name_def epoch_end_name_def)
  note T1 = run_evaluation_returns_reducer_list [OF run1]
  from T1 have a0: "\<exists>xs. ?r1 = VList xs" by (rule conjunct1)
  have "?r1 \<noteq> VList []" by simp
  with T1 [THEN conjunct2] h1
  have "\<exists>v. ?r1 = as_list (epoch_end_hook epoch_end_hooks False v)"
    by (elim disjE exE conjE) auto
  with sel have a1: "\<exists>dataloaders v.
           selected_dataloaders (select_dataloaders epoch_end_hooks val_trainer False) False
             = Some dataloaders
           \<and> ?r1 = as_list (epoch_end_hook epoch_end_hooks False v)" by blast
  \<comment> \<open>the deprecated hook\<close>
  let ?r2 = "VList [VDict [(''val_loss'', VTensor (Scalar (Val 2)))]]"
  have "\<exists>rep s'. run_evaluation both_hooks val_trainer False = Inr ((rep, ?r2), s')"
    by (simp add: run_defs sample_defs)
  then obtain rep2 s2 where run2: "run_evaluation both_hooks val_trainer False = Inr ((rep2, ?r2), s2)"
    by blast
  have h2: "is_overridden both_hooks (legacy_name False)"
    by (simp add: both_hooks_def legacy_hooks_def)
  have "?r2 \<noteq> VList []" by simp
  with run_evaluation_returns_reducer_list [OF run2, THEN conjunct2] h2
  have a2: "\<exists>v. ?r2 = as_list (legacy_hook both_hooks False v)"
    by (elim disjE exE conjE) auto
  \<comment> \<open>the auto-reduce\<close>
  let ?r3 = "VList [VResult \<lparr>epoch_pbar_metrics = [],
                       epoch_log_metrics = [(''val_acc'', Scalar (Val (1/2)))],
                       result_callback_metrics = [(''val_acc'', Scalar (Val (1/2)))],
                       checkpoint_on = Some (Scalar (Val (1/2))),
                       early_stop_on = None\<rparr>]"
  let ?h3 = "structured_hooks ''val_acc''"
  have "\<exists>rep s'. run_evaluation ?h3 val_trainer False = Inr ((rep, ?r3), s')"
    by (simp add: run_defs sample_defs)
  then obtain rep3 s3 where run3: "run_evaluation ?h3 val_trainer False = Inr ((rep3, ?r3), s3)"
    by blast
  have h3: "\<not> is_overridden ?h3 (legacy_name False)" "\<not> is_overridden ?h3 (epoch_end_name False)"
    "is_using_eval_results ?h3 (epoch_outputs ?h3 False ?dls (MList [3]))"
    by (simp_all add: sample_defs epoch_outputs_def source_outputs_def live_batches_def
        limits_per_source_def batch_output_def)
  have "?r3 \<noteq> VList []" by simp
  with run_evaluation_returns_reducer_list [OF run3, THEN conjunct2] h3
  have a3: "\<exists>rs. length rs = length ?dls \<and> ?r3 = VList (map VResult rs)"
    unfolding sel lim by (elim disjE exE conjE) auto
  \<comment> \<open>the raw outputs\<close>
  let ?r4 = "VList [VTensor (Scalar (Val 0)), VTensor (Scalar (Val 1)), VTensor (Scalar (Val 2))]"
  have "\<exists>rep s'. run_evaluation legacy_hooks val_trainer False = Inr ((rep, ?r4), s')"
    by (simp add: run_defs sample_defs)
  then obtain rep4 s4 where run4: "run_evaluation legacy_hooks val_trainer False = Inr ((rep4, ?r4), s4)"
    by blast
  have h4: "\<not> is_overridden legacy_hooks (legacy_name False)"
    "\<not> is_overridden legacy_hooks (epoch_end_name False)"
    "\<not> is_using_eval_results legacy_hooks (epoch_outputs legacy_hooks False ?dls (MList [3]))"
    by (simp_all add: sample_defs epoch_outputs_def source_outputs_def live_batches_def
        limits_per_source_def batch_output_def)
  have "?r4 \<noteq> VList []" by simp
  with run_evaluation_returns_reducer_list [OF run4, THEN conjunct2] h4
  have a4: "single_unwrap (epoch_outputs legacy_hooks False ?dls (MList [3])) ?dls = Inr ?r4"
    unfolding sel lim by (elim disjE exE conjE) auto
  from a0 a1 a2 a3 a4 show ?thesis by (intro conjI)
qed

text \<open>
  The claim as stated fails: a validation run over one data source whose epoch-end hook
  returns a bare mapping gives back the length-1 list that wraps the mapping.
\<close>

theorem single_source_unwrap_counterexample:
  "map_sum id (\<lambda>r. snd (fst r)) (run_evaluation epoch_end_hooks val_trainer False)
     = Inr (VList [VDict [(''val_loss'', VTensor (Scalar (Val 1)))]])
   \<and> validation_epoch_end epoch_end_hooks (VList [])
       = VDict [(''val_loss'', VTensor (Scalar (Val 1)))]
   \<and> map_sum id (\<lambda>r. snd (fst r)) (run_evaluation epoch_end_hooks val_trainer False)
     \<noteq> Inr (VDict [(''val_loss'', VTensor (Scalar (Val 1)))])
   \<and> map_option length (val_dataloaders val_trainer) = Some 1"
  by (simp add: run_defs sample_defs)

section \<open>Properties of the metrics publisher\<close>

lemma log_results_reporting:
  "log_results h test_mode rs acc s = Inr (rep, s') \<Longrightarrow>
   \<exists>vs. map (result_views h test_mode) rs = map Inr vs
        \<and> rep = acc @ filter (\<lambda>m. m \<noteq> []) (map merged_views vs)"
proof (induction rs arbitrary: acc s)
  case Nil
  then show ?case by simp
next
  case (Cons r rs)
  from Cons.prems obtain v where v: "result_views h test_mode r = Inr v"
    by (cases "result_views h test_mode r") simp_all
  obtain p l c where plc: "v = (p, l, c)" by (cases v)
  let ?m = "merged_views (p, l, c)"
  let ?acc = "if ?m \<noteq> [] then acc @ [?m] else acc"
  from Cons.prems v plc obtain t where "log_results h test_mode rs ?acc t = Inr (rep, s')"
    by (simp add: Let_def)
  from Cons.IH [OF this] obtain vs where vs: "map (result_views h test_mode) rs = map Inr vs"
    and rep: "rep = ?acc @ filter (\<lambda>m. m \<noteq> []) (map merged_views vs)" by blast
  have "map (result_views h test_mode) (r # rs) = map Inr (v # vs)" by (simp add: v vs)
  moreover have "rep = acc @ filter (\<lambda>m. m \<noteq> []) (map merged_views (v # vs))"
    by (simp add: rep plc)
  ultimately show ?case by blast
qed

lemma log_evaluation_epoch_metrics_reporting:
  assumes "log_evaluation_epoch_metrics h s (VList rs) test_mode = Inr (rep, s')"
  shows "\<exists>vs. map (result_views h test_mode) rs = map Inr vs
        \<and> rep = filter (\<lambda>m. m \<noteq> []) (map merged_views vs)"
proof (cases "rs = []")
  case True
  with assms show ?thesis by (simp add: log_evaluation_epoch_metrics_def)
next
  case False
  with assms obtain t where "log_results h test_mode rs [] s = Inr (rep, t)"
    by (auto simp: log_evaluation_epoch_metrics_def split: sum.splits)
  from log_results_reporting [OF this] show ?thesis by simp
qed

text \<open>
  Claim C9, as amended. The reporting list that \<^verbatim>\<open>run_evaluation\<close> returns holds, in order,
  the merged progress-bar, log and callback mapping of every entry of the epoch result whose
  merged mapping is not empty; it has at most as many mappings as the epoch result has
  entries.
\<close>

theorem reporting_list_keeps_nonempty_mappings:
  assumes run: "run_evaluation h s test_mode = Inr ((rep, res), s')"
  shows "\<exists>rs vs. res = VList rs
           \<and> map (result_views h test_mode) rs = map Inr vs
           \<and> rep = filter (\<lambda>m. m \<noteq> []) (map merged_views vs)
           \<and> length rep \<le> length rs"
proof -
  have "\<exists>rs vs. res = VList rs
           \<and> map (result_views h test_mode) rs = map Inr vs
           \<and> rep = filter (\<lambda>m. m \<noteq> []) (map merged_views vs)"
    using run_evaluation_cases [OF run]
  proof (elim disjE exE conjE)
    assume "rep = []" "res = VList []"
    then have "res = VList [] \<and> map (result_views h test_mode) [] = map Inr []
           \<and> rep = filter (\<lambda>m. m \<noteq> []) (map merged_views [])" by simp
    then show ?thesis by blast
  next
    fix dataloaders s3 s4
    assume ev: "evaluate h (emit [start_event test_mode] (select_dataloaders h s test_mode)) dataloaders
                 (selected_max_batches (select_dataloaders h s test_mode) test_mode) test_mode
               = Inr (res, s3)"
      and lg: "log_evaluation_epoch_metrics h s3 res test_mode = Inr (rep, s4)"
    from evaluate_list [OF ev] obtain rs where rs: "res = VList rs" by blast
    from log_evaluation_epoch_metrics_reporting [OF lg [unfolded rs]] rs
    show ?thesis by blast
  qed
  then obtain rs vs where res: "res = VList rs"
    and vs: "map (result_views h test_mode) rs = map Inr vs"
    and rep: "rep = filter (\<lambda>m. m \<noteq> []) (map merged_views vs)" by blast
  from vs have "length vs = length rs" by (metis length_map)
  then have "length rep \<le> length rs"
    unfolding rep by (metis length_filter_le length_map)
  with res vs rep show ?thesis by blast
qed

theorem reporting_list_keeps_nonempty_mappings_witness:
  "\<exists>rs vs. VList [VDict [(''val_loss'', VTensor (Scalar (Val (1/2))))],
                   VDict [(''val_loss'', VTensor (Scalar (Val (3/10))))],
                   VDict [(''val_loss'', VTensor (Scalar (Val (7/10))))]] = VList rs
           \<and> map (result_views (dict_hooks ''val_loss'') False) rs = map Inr vs
           \<and> [[(''val_loss'', VTensor (Scalar (Val (1/2))))],
               [(''val_loss'', VTensor (Scalar (Val (3/10))))],
               [(''val_loss'', VTensor (Scalar (Val (7/10))))]]
              = filter (\<lambda>m. m \<noteq> []) (map merged_views vs)
           \<and> length [[(''val_loss'', VTensor (Scalar (Val (1/2))))],
               [(''val_loss'', VTensor (Scalar (Val (3/10))))],
               [(''val_loss'', VTensor (Scalar (Val ((7::rat)/10))))]] \<le> length rs"
proof -
  have "\<exists>s'. run_evaluation (dict_hooks ''val_loss'') val_trainer False =
      Inr (([[(''val_loss'', VTensor (Scalar (Val (1/2))))],
             [(''val_loss'', VTensor (Scalar (Val (3/10))))],
             [(''val_loss'', VTensor (Scalar (Val (7/10))))]],
            VList [VDict [(''val_loss'', VTensor (Scalar (Val (1/2))))],
                   VDict [(''val_loss'', VTensor (Scalar (Val (3/10))))],
                   VDict [(''val_loss'', VTensor (Scalar (Val (7/10))))]]), s')"
    by (simp add: run_defs sample_defs)
  then obtain s' where "run_evaluation (dict_hooks ''val_loss'') val_trainer False =
      Inr (([[(''val_loss'', VTensor (Scalar (Val (1/2))))],
             [(''val_loss'', VTensor (Scalar (Val (3/10))))],
             [(''val_loss'', VTensor (Scalar (Val (7/10))))]],
            VList [VDict [(''val_loss'', VTensor (Scalar (Val (1/2))))],
                   VDict [(''val_loss'', VTensor (Scalar (Val (3/10))))],
                   VDict [(''val_loss'', VTensor (Scalar (Val (7/10))))]]), s')" ..
  then show ?thesis by (rule reporting_list_keeps_nonempty_mappings)
qed

text \<open>
  The claim as stated fails: with one data source of three batches, a model whose steps
  return mappings and which has no epoch-end hook gets three mappings, and a model whose
  steps return scalars gets none.
\<close>

theorem one_mapping_per_source_counterexample:
  "map_sum id (\<lambda>r. length (fst (fst r))) (run_evaluation (dict_hooks ''val_loss'') val_trainer False)
     = Inr 3
   \<and> map_sum id (\<lambda>r. length (fst (fst r))) (run_evaluation legacy_hooks val_trainer False)
     = Inr 0
   \<and> map_option length (val_dataloaders val_trainer) = Some 1"
  by (simp add: run_defs sample_defs)

lemma dict_update_Nil: "dict_update d [] = d"
  by (simp add: dict_update_def)

lemma emit_callback_metrics: "callback_metrics (emit es s) = callback_metrics s"
  by (simp add: emit_def)

lemma log_results_test_structured:
  "\<forall>r\<in>set rs. \<exists>e. r = VResult e \<Longrightarrow>
   \<exists>rep s'. log_results h True rs acc s = Inr (rep, s') \<and> callback_metrics s' = callback_metrics s"
proof (induction rs arbitrary: acc s)
  case Nil
  then show ?case by simp
next
  case (Cons r rs)
  from Cons.prems obtain e where r: "r = VResult e" by auto
  let ?p = "tensor_dict (epoch_pbar_metrics e)" and ?l = "tensor_dict (epoch_log_metrics e)"
  let ?m = "merged_views (?p, ?l, [])"
  let ?t = "emit [AddProgressBarMetrics ?p, LogMetrics ?l] s"
  have step: "log_results h True (r # rs) acc s =
      log_results h True rs (if ?m \<noteq> [] then acc @ [?m] else acc) ?t"
    by (simp add: r result_views_def Let_def dict_update_Nil emit_def)
  from Cons.prems have "\<forall>r\<in>set rs. \<exists>e. r = VResult e" by simp
  from Cons.IH [OF this, of "if ?m \<noteq> [] then acc @ [?m] else acc" ?t]
  show ?case unfolding step by (simp add: emit_callback_metrics)
qed

text \<open>
  Claim C4, as amended. In test mode the epoch-level metric emission over Structured-variant
  epoch results returns and leaves the shared callback-metric store as it was.
\<close>

theorem test_emission_keeps_store:
  assumes "\<forall>r\<in>set rs. \<exists>e. r = VResult e"
  shows "\<exists>rep s'. log_evaluation_epoch_metrics h s (VList rs) True = Inr (rep, s')
           \<and> callback_metrics s' = callback_metrics s"
proof -
  from log_results_test_structured [OF assms, of h "[]" s]
  obtain rep t where run: "log_results h True rs [] s = Inr (rep, t)"
    and store: "callback_metrics t = callback_metrics s" by blast
  show ?thesis
  proof (cases "rs = []")
    case True
    then show ?thesis by (simp add: log_evaluation_epoch_metrics_def emit_callback_metrics)
  next
    case False
    with run store show ?thesis
      by (simp add: log_evaluation_epoch_metrics_def emit_callback_metrics)
  qed
qed

theorem test_emission_keeps_store_witness:
  "\<exists>rep s'. log_evaluation_epoch_metrics (structured_hooks ''val_acc'')
               (idle_trainer\<lparr>callback_metrics := [(''val_loss'', VTensor (Scalar (Val 1)))]\<rparr>)
               (VList [monitored (1/2) 1, monitored (3/10) 2]) True = Inr (rep, s')
       \<and> callback_metrics s'
           = callback_metrics (idle_trainer\<lparr>callback_metrics := [(''val_loss'', VTensor (Scalar (Val 1)))]\<rparr>)"
proof -
  have "\<forall>r\<in>set [monitored (1/2) 1, monitored (3/10) 2]. \<exists>e. r = VResult e"
    by (simp add: monitored_def)
  then show ?thesis by (rule test_emission_keeps_store)
qed

text \<open>A legacy result: the callback view of the post-processing is merged into the store,
  whatever the mode.\<close>

lemma legacy_emission_merges_callback_view:
  assumes "\<And>e. r \<noteq> VResult e" and "process_output h r = Inr (p, l, c)"
  shows "\<exists>rep s'. log_evaluation_epoch_metrics h s (VList [r]) test_mode = Inr (rep, s')
           \<and> callback_metrics s' = dict_update (callback_metrics s) c"
  using assms
  by (cases r) (auto simp: log_evaluation_epoch_metrics_def result_views_def Let_def emit_def)

text \<open>
  The claim as stated fails: for a legacy result the emission merges the callback view of
  the post-processing into the store in test mode too, and a test run with
  Structured-variant results changes the store through the callback-metric sync of
  \<^verbatim>\<open>_evaluate\<close>.
\<close>

theorem test_mode_store_counterexample:
  "map_sum id (\<lambda>r. callback_metrics (snd r))
      (log_evaluation_epoch_metrics legacy_hooks idle_trainer
         (VList [VDict [(''val_loss'', VTensor (Scalar (Val 1)))]]) True)
     = Inr [(''val_loss'', VTensor (Scalar (Val 1)))]
   \<and> callback_metrics idle_trainer = []
   \<and> map_sum id (\<lambda>r. callback_metrics (snd r))
        (run_evaluation (structured_hooks ''val_acc'') test_trainer True)
     = Inr [(''val_acc'', VTensor (Scalar (Val (1/2))))]
   \<and> callback_metrics test_trainer = []"
  by (simp add: run_defs sample_defs)

subsection \<open>The callback-metric sync\<close>

text \<open>With Structured-variant results the sync leaves the callback view of the last result in
  the store, whatever the store held; with legacy results it keeps every key of the store.\<close>

lemma for_each_assign_last:
  "for_each assign_callback_metrics (rs @ [VResult r]) s = Inr s' \<Longrightarrow>
   callback_metrics s' = tensor_dict (result_callback_metrics r)"
proof (induction rs arbitrary: s)
  case Nil
  then show ?case by (auto simp: assign_callback_metrics_def)
next
  case (Cons x rs)
  then show ?case by (auto split: sum.splits)
qed

lemma structured_sync_replaces:
  "update_callback_metrics h s (VList (rs @ [VResult r])) True = Inr s' \<Longrightarrow>
   callback_metrics s' = tensor_dict (result_callback_metrics r)"
  by (simp add: update_callback_metrics_def for_each_assign_last)

lemma keys_update: "keys (AList.update k v d) = insert k (keys d)"
  by (simp add: keys_def dom_update)

lemma keys_dict_update: "keys (dict_update d other) = keys d \<union> keys other"
proof (induction other arbitrary: d)
  case Nil
  show ?case by (simp add: dict_update_def keys_def)
next
  case (Cons kv other)
  obtain k v where kv: "kv = (k, v)" by (cases kv)
  have "dict_update d (kv # other) = dict_update (AList.update k v d) other"
    by (simp add: dict_update_def kv)
  moreover have "keys (kv # other) = insert k (keys other)" by (simp add: keys_def kv)
  ultimately show ?case using Cons.IH [of "AList.update k v d"]
    by (simp add: keys_update)
qed

lemma merge_callback_metrics_keys:
  "merge_callback_metrics h r s = Inr s' \<Longrightarrow> keys (callback_metrics s) \<subseteq> keys (callback_metrics s')"
  by (auto simp: merge_callback_metrics_def keys_dict_update split: sum.splits)

lemma for_each_merge_keys:
  "for_each (merge_callback_metrics h) rs s = Inr s' \<Longrightarrow>
   keys (callback_metrics s) \<subseteq> keys (callback_metrics s')"
proof (induction rs arbitrary: s)
  case Nil
  then show ?case by simp
next
  case (Cons r rs)
  from Cons.prems obtain t where t: "merge_callback_metrics h r s = Inr t"
    and rest: "for_each (merge_callback_metrics h) rs t = Inr s'"
    by (auto split: sum.splits)
  from merge_callback_metrics_keys [OF t] Cons.IH [OF rest] show ?case by blast
qed

lemma legacy_sync_keeps_keys:
  "update_callback_metrics h s eval_results False = Inr s' \<Longrightarrow>
   keys (callback_metrics s) \<subseteq> keys (callback_metrics s')"
  by (cases eval_results)
    (auto simp: update_callback_metrics_def dest: for_each_merge_keys merge_callback_metrics_keys)

text \<open>
  Claim C1 on the code. Two validation runs in sequence, with Structured-variant results
  that publish \<^verbatim>\<open>val_acc\<close> in the first run and \<^verbatim>\<open>val_loss\<close> in the second: after the
  first run the store holds \<^verbatim>\<open>val_acc\<close>, after the second it holds \<^verbatim>\<open>val_loss\<close> only.
  The same two runs with legacy results keep both keys.
\<close>

theorem structured_sync_wipes_first_run:
  "map_sum id (\<lambda>r. map fst (callback_metrics (snd r)))
      (run_evaluation (structured_hooks ''val_acc'') val_trainer False)
     = Inr [''val_acc'']
   \<and> map_sum id (\<lambda>r. map fst (callback_metrics (snd r)))
      (run_twice (structured_hooks ''val_acc'') (structured_hooks ''val_loss'') val_trainer False)
     = Inr [''val_loss'']
   \<and> map_sum id (\<lambda>r. map fst (callback_metrics (snd r)))
      (run_twice (dict_hooks ''val_acc'') (dict_hooks ''val_loss'') val_trainer False)
     = Inr [''val_acc'', ''val_loss'']"
  by (simp add: run_defs sample_defs)

end
